theory Spec2Isabelle
  imports Main
begin

section \<open>Checked 256-bit arithmetic and reverts\<close>

text \<open>
  The contracts are compiled with Solidity 0.8: every \<open>uint256\<close> operation is checked,
  and an overflow, an underflow or a division by zero aborts the whole call. A
  \<open>uint256\<close> is modelled as a natural number, each operation as a function into
  \<open>error + nat\<close>. Solidity reports overflow and underflow as \<open>Panic(0x11)\<close> and division
  by zero as \<open>Panic(0x12)\<close>; the model keeps overflow and underflow apart.
  A reverted call is the value \<open>Inl e\<close>: no state is returned, so no state changes.
\<close>

definition MAX_UINT256 :: nat where
  "MAX_UINT256 = 2 ^ 256 - 1"

datatype error =
    InsufficientBalance
  | InvalidAmount
  | CollateralDisabled
  | ExceedsBorrowCapacity
  | InsufficientLiquidity
  | Revert
  | Require string
  | Overflow
  | Underflow
  | DivByZero

definition andThen :: "error + 'a \<Rightarrow> ('a \<Rightarrow> error + 'b) \<Rightarrow> error + 'b" where
  "andThen m f = (case m of Inl e \<Rightarrow> Inl e | Inr x \<Rightarrow> f x)"

definition checked_add :: "nat \<Rightarrow> nat \<Rightarrow> error + nat" where
  "checked_add a b = (if a + b > MAX_UINT256 then Inl Overflow else Inr (a + b))"

definition checked_sub :: "nat \<Rightarrow> nat \<Rightarrow> error + nat" where
  "checked_sub a b = (if a < b then Inl Underflow else Inr (a - b))"

definition checked_mul :: "nat \<Rightarrow> nat \<Rightarrow> error + nat" where
  "checked_mul a b = (if a * b > MAX_UINT256 then Inl Overflow else Inr (a * b))"

definition checked_div :: "nat \<Rightarrow> nat \<Rightarrow> error + nat" where
  "checked_div a b = (if b = 0 then Inl DivByZero else Inr (a div b))"

text \<open>\<open>(a * b) / c\<close> as the source writes it: the product is checked, then the quotient.\<close>

definition mul_div :: "nat \<Rightarrow> nat \<Rightarrow> nat \<Rightarrow> error + nat" where
  "mul_div a b c = andThen (checked_mul a b) (\<lambda>p. checked_div p c)"

definition revert_if :: "bool \<Rightarrow> error \<Rightarrow> error + unit" where
  "revert_if c e = (if c then Inl e else Inr ())"

definition require :: "bool \<Rightarrow> string \<Rightarrow> error + unit" where
  "require c msg = (if c then Inr () else Inl (Require msg))"

abbreviation e18 :: nat where
  "e18 \<equiv> 1000000000000000000"

section \<open>QieLendNative: constants and storage\<close>

definition COLLATERAL_FACTOR :: nat where "COLLATERAL_FACTOR = 7000"
definition LIQUIDATION_THRESHOLD :: nat where "LIQUIDATION_THRESHOLD = 8000"
definition LIQUIDATION_BONUS :: nat where "LIQUIDATION_BONUS = 5"
definition RESERVE_FACTOR :: nat where "RESERVE_FACTOR = 4000"
definition SECONDS_PER_YEAR :: nat where "SECONDS_PER_YEAR = 31536000"
definition BASE_RATE :: nat where "BASE_RATE = 200"
definition KINK_UTILIZATION :: nat where "KINK_UTILIZATION = 8000"
definition MULTIPLIER :: nat where "MULTIPLIER = 800"
definition JUMP_MULTIPLIER :: nat where "JUMP_MULTIPLIER = 2000"

type_synonym address = nat

text \<open>
  \<open>struct UserAccount\<close>. The fields \<open>supplyIndex\<close> and \<open>borrowIndex\<close> of the struct are
  named \<open>acc_supplyIndex\<close> and \<open>acc_borrowIndex\<close>, the contract's storage variables keep
  their names.
\<close>

record UserAccount =
  supplyBalance :: nat
  borrowBalance :: nat
  acc_supplyIndex :: nat
  acc_borrowIndex :: nat
  collateralEnabled :: bool
  accruedRewards :: nat
  lastRewardUpdate :: nat

text \<open>
  The contract's storage, and \<open>balance\<close>: the native balance \<open>address(this).balance\<close>
  of the contract, which a payable call raises by \<open>msg.value\<close> before its body runs.
\<close>

record state =
  totalSupply :: nat
  totalBorrow :: nat
  totalReserves :: nat
  lastUpdateTime :: nat
  exchangeRate :: nat
  supplyIndex :: nat
  borrowIndex :: nat
  accounts :: "address \<Rightarrow> UserAccount"
  balance :: nat

definition empty_account :: UserAccount where
  "empty_account = \<lparr>supplyBalance = 0, borrowBalance = 0, acc_supplyIndex = 0,
     acc_borrowIndex = 0, collateralEnabled = False, accruedRewards = 0,
     lastRewardUpdate = 0\<rparr>"

definition init :: state where
  "init = \<lparr>totalSupply = 0, totalBorrow = 0, totalReserves = 0, lastUpdateTime = 0,
     exchangeRate = e18, supplyIndex = e18, borrowIndex = e18,
     accounts = (\<lambda>_. empty_account), balance = 0\<rparr>"

text \<open>
  \<open>payable(msg.sender).call{value: amount}("")\<close> followed by \<open>require(ok, msg)\<close>: the call
  fails when the contract holds less than \<open>amount\<close> or when the receiver rejects the
  payment (\<open>accepts\<close> is False for such a receiver).
\<close>

definition send_value :: "bool \<Rightarrow> nat \<Rightarrow> string \<Rightarrow> state \<Rightarrow> error + state" where
  "send_value accepts amount msg s =
     andThen (require (accepts \<and> amount \<le> balance s) msg)
       (\<lambda>_. Inr (s\<lparr>balance := balance s - amount\<rparr>))"

definition receive_value :: "nat \<Rightarrow> state \<Rightarrow> state" where
  "receive_value v s = s\<lparr>balance := balance s + v\<rparr>"

section \<open>QieLendNative: internal functions\<close>

definition calculateBorrowRate :: "nat \<Rightarrow> error + nat" where
  "calculateBorrowRate utilization =
     (if utilization \<le> KINK_UTILIZATION then
        andThen (mul_div utilization MULTIPLIER KINK_UTILIZATION) (\<lambda>q.
        checked_add BASE_RATE q)
      else
        andThen (checked_sub utilization KINK_UTILIZATION) (\<lambda>excessUtilization.
        andThen (checked_add BASE_RATE MULTIPLIER) (\<lambda>baseRate.
        andThen (mul_div excessUtilization JUMP_MULTIPLIER (10000 - KINK_UTILIZATION)) (\<lambda>q.
        checked_add baseRate q))))"

definition calculateHealthFactor :: "nat \<Rightarrow> nat \<Rightarrow> error + nat" where
  "calculateHealthFactor supplyBal borrowBal =
     (if borrowBal = 0 then Inr MAX_UINT256
      else
        andThen (mul_div supplyBal LIQUIDATION_THRESHOLD 10000) (\<lambda>collateralValue.
        mul_div collateralValue e18 borrowBal))"

definition accrueInterest :: "nat \<Rightarrow> state \<Rightarrow> error + state" where
  "accrueInterest now s =
     andThen (checked_sub now (lastUpdateTime s)) (\<lambda>timeElapsed.
     if timeElapsed = 0 \<or> totalSupply s = 0 then Inr (s\<lparr>lastUpdateTime := now\<rparr>)
     else
       andThen (if totalBorrow s > 0 then mul_div (totalBorrow s) e18 (totalSupply s)
                else Inr 0) (\<lambda>utilization.
       andThen (mul_div utilization 10000 e18) (\<lambda>u.
       andThen (calculateBorrowRate u) (\<lambda>borrowRate.
       andThen (mul_div borrowRate e18 (10000 * SECONDS_PER_YEAR)) (\<lambda>borrowRatePerSecond.
       andThen (checked_mul (totalBorrow s) borrowRatePerSecond) (\<lambda>p.
       andThen (mul_div p timeElapsed e18) (\<lambda>interestAccrued.
       andThen (mul_div interestAccrued RESERVE_FACTOR 10000) (\<lambda>reserveAmount.
       andThen (checked_sub interestAccrued reserveAmount) (\<lambda>supplyInterest.
       andThen (if totalSupply s > 0 then
                  andThen (mul_div supplyInterest e18 (totalSupply s)) (\<lambda>d.
                  checked_add (exchangeRate s) d)
                else Inr (exchangeRate s)) (\<lambda>exchangeRate'.
       andThen (if totalBorrow s > 0 then
                  andThen (mul_div interestAccrued e18 (totalBorrow s)) (\<lambda>d.
                  checked_add (borrowIndex s) d)
                else Inr (borrowIndex s)) (\<lambda>borrowIndex'.
       andThen (checked_add (totalReserves s) reserveAmount) (\<lambda>totalReserves'.
       andThen (checked_add (totalBorrow s) interestAccrued) (\<lambda>totalBorrow'.
       andThen (checked_add (totalSupply s) supplyInterest) (\<lambda>totalSupply'.
       Inr (s\<lparr>exchangeRate := exchangeRate', borrowIndex := borrowIndex',
              supplyIndex := exchangeRate', totalReserves := totalReserves',
              totalBorrow := totalBorrow', totalSupply := totalSupply',
              lastUpdateTime := now\<rparr>)))))))))))))))"

definition updateUserRewards :: "nat \<Rightarrow> address \<Rightarrow> state \<Rightarrow> error + state" where
  "updateUserRewards now user s =
     (let account = accounts s user in
      if supplyBalance account = 0 then
        Inr (s\<lparr>accounts := (accounts s)(user := account\<lparr>lastRewardUpdate := now\<rparr>)\<rparr>)
      else
        andThen (checked_sub now (lastRewardUpdate account)) (\<lambda>timeElapsed.
        if timeElapsed = 0 then Inr s
        else
          andThen (mul_div (supplyBalance account) (exchangeRate s) e18) (\<lambda>userSupplyBalance.
          andThen (if totalBorrow s > 0 then mul_div (totalBorrow s) 10000 (totalSupply s)
                   else Inr 0) (\<lambda>utilization.
          andThen (calculateBorrowRate utilization) (\<lambda>borrowRate.
          andThen (mul_div borrowRate (10000 - RESERVE_FACTOR) 10000) (\<lambda>supplyRate.
          andThen (mul_div supplyRate e18 (10000 * SECONDS_PER_YEAR)) (\<lambda>supplyRatePerSecond.
          andThen (mul_div userSupplyBalance supplyRatePerSecond e18) (\<lambda>rewardsPerSecond.
          andThen (checked_mul rewardsPerSecond timeElapsed) (\<lambda>newRewards.
          andThen (checked_add (accruedRewards account) newRewards) (\<lambda>accrued.
          Inr (s\<lparr>accounts := (accounts s)(user := account\<lparr>accruedRewards := accrued,
                                                          lastRewardUpdate := now\<rparr>)\<rparr>)))))))))))"

section \<open>QieLendNative: external functions\<close>

text \<open>
  Each external function is split in two: \<open>f_body\<close> is the function's own body, and \<open>f\<close>
  runs the modifiers \<open>updateInterest\<close> and \<open>updateUserRewards(msg.sender)\<close> before it.
  \<open>now\<close> is \<open>block.timestamp\<close>, \<open>sender\<close> is \<open>msg.sender\<close>, \<open>v\<close> is \<open>msg.value\<close> of a
  payable function, \<open>accepts\<close> tells whether \<open>msg.sender\<close> accepts a native payment.
\<close>

definition supplyNative_body :: "address \<Rightarrow> nat \<Rightarrow> state \<Rightarrow> error + state" where
  "supplyNative_body sender amount s =
     andThen (revert_if (amount = 0) InvalidAmount) (\<lambda>_.
     let account = accounts s sender in
     andThen (mul_div amount e18 (exchangeRate s)) (\<lambda>supplyAmount.
     andThen (checked_add (supplyBalance account) supplyAmount) (\<lambda>supplyBalance'.
     andThen (checked_add (totalSupply s) amount) (\<lambda>totalSupply'.
     Inr (s\<lparr>accounts := (accounts s)(sender := account\<lparr>supplyBalance := supplyBalance',
                                                      acc_supplyIndex := supplyIndex s\<rparr>),
            totalSupply := totalSupply'\<rparr>)))))"

definition supplyNative :: "nat \<Rightarrow> address \<Rightarrow> nat \<Rightarrow> state \<Rightarrow> error + state" where
  "supplyNative now sender v s =
     andThen (accrueInterest now (receive_value v s)) (\<lambda>s1.
     andThen (updateUserRewards now sender s1) (\<lambda>s2.
     supplyNative_body sender v s2))"

definition withdraw_body :: "address \<Rightarrow> nat \<Rightarrow> bool \<Rightarrow> state \<Rightarrow> error + state" where
  "withdraw_body sender amount accepts s =
     andThen (revert_if (amount = 0) InvalidAmount) (\<lambda>_.
     let account = accounts s sender in
     andThen (mul_div (supplyBalance account) (exchangeRate s) e18) (\<lambda>userSupplyBalance.
     andThen (revert_if (userSupplyBalance < amount) InsufficientBalance) (\<lambda>_.
     andThen (if collateralEnabled account \<and> borrowBalance account > 0 then
                andThen (checked_sub userSupplyBalance amount) (\<lambda>newSupplyBalance.
                andThen (mul_div newSupplyBalance COLLATERAL_FACTOR 10000) (\<lambda>maxBorrow.
                let borrowIdx = (if acc_borrowIndex account = 0 then borrowIndex s
                                 else acc_borrowIndex account) in
                andThen (mul_div (borrowBalance account) (borrowIndex s) borrowIdx) (\<lambda>currentBorrow.
                revert_if (currentBorrow > maxBorrow) CollateralDisabled)))
              else Inr ()) (\<lambda>_.
     andThen (mul_div amount e18 (exchangeRate s)) (\<lambda>withdrawAmount.
     andThen (checked_sub (supplyBalance account) withdrawAmount) (\<lambda>supplyBalance'.
     andThen (checked_sub (totalSupply s) amount) (\<lambda>totalSupply'.
     send_value accepts amount ''Native transfer failed''
       (s\<lparr>accounts := (accounts s)(sender := account\<lparr>supplyBalance := supplyBalance',
                                                    acc_supplyIndex := supplyIndex s\<rparr>),
          totalSupply := totalSupply'\<rparr>))))))))"

definition withdraw :: "nat \<Rightarrow> address \<Rightarrow> nat \<Rightarrow> bool \<Rightarrow> state \<Rightarrow> error + state" where
  "withdraw now sender amount accepts s =
     andThen (accrueInterest now s) (\<lambda>s1.
     andThen (updateUserRewards now sender s1) (\<lambda>s2.
     withdraw_body sender amount accepts s2))"

definition borrow_body :: "address \<Rightarrow> nat \<Rightarrow> bool \<Rightarrow> state \<Rightarrow> error + state" where
  "borrow_body sender amount accepts s =
     andThen (revert_if (amount = 0) InvalidAmount) (\<lambda>_.
     let account = accounts s sender in
     andThen (revert_if (\<not> collateralEnabled account) CollateralDisabled) (\<lambda>_.
     andThen (mul_div (supplyBalance account) (exchangeRate s) e18) (\<lambda>userSupplyBalance.
     andThen (mul_div userSupplyBalance COLLATERAL_FACTOR 10000) (\<lambda>maxBorrow.
     let borrowIdx = (if acc_borrowIndex account = 0 then borrowIndex s
                      else acc_borrowIndex account) in
     andThen (if borrowBalance account = 0 then Inr 0
              else mul_div (borrowBalance account) (borrowIndex s) borrowIdx) (\<lambda>userBorrowBalance.
     andThen (checked_add userBorrowBalance amount) (\<lambda>newBorrow.
     andThen (revert_if (newBorrow > maxBorrow) ExceedsBorrowCapacity) (\<lambda>_.
     andThen (checked_add (totalBorrow s) amount) (\<lambda>totalBorrow'.
     andThen (revert_if (totalBorrow' > totalSupply s) InsufficientLiquidity) (\<lambda>_.
     andThen (mul_div amount e18 (borrowIndex s)) (\<lambda>scaled.
     andThen (checked_add (borrowBalance account) scaled) (\<lambda>borrowBalance'.
     send_value accepts amount ''Native transfer failed''
       (s\<lparr>accounts := (accounts s)(sender := account\<lparr>borrowBalance := borrowBalance',
                                                    acc_borrowIndex := borrowIndex s\<rparr>),
          totalBorrow := totalBorrow'\<rparr>))))))))))))"

definition borrow :: "nat \<Rightarrow> address \<Rightarrow> nat \<Rightarrow> bool \<Rightarrow> state \<Rightarrow> error + state" where
  "borrow now sender amount accepts s =
     andThen (accrueInterest now s) (\<lambda>s1.
     andThen (updateUserRewards now sender s1) (\<lambda>s2.
     borrow_body sender amount accepts s2))"

definition repay_body :: "address \<Rightarrow> nat \<Rightarrow> state \<Rightarrow> error + state" where
  "repay_body sender amount s =
     andThen (revert_if (amount = 0) InvalidAmount) (\<lambda>_.
     let account = accounts s sender;
         borrowIdx = (if acc_borrowIndex account = 0 then borrowIndex s
                      else acc_borrowIndex account) in
     andThen (if borrowBalance account = 0 then Inr 0
              else mul_div (borrowBalance account) (borrowIndex s) borrowIdx) (\<lambda>userBorrowBalance.
     let repayAmount = (if amount > userBorrowBalance then userBorrowBalance else amount) in
     andThen (checked_sub userBorrowBalance repayAmount) (\<lambda>remaining.
     andThen (mul_div remaining e18 (borrowIndex s)) (\<lambda>borrowBalance'.
     andThen (checked_sub (totalBorrow s) repayAmount) (\<lambda>totalBorrow'.
     andThen (if amount > repayAmount then
                andThen (checked_sub amount repayAmount) (\<lambda>excess.
                checked_add (totalReserves s) excess)
              else Inr (totalReserves s)) (\<lambda>totalReserves'.
     Inr (s\<lparr>accounts := (accounts s)(sender := account\<lparr>borrowBalance := borrowBalance',
                                                      acc_borrowIndex := borrowIndex s\<rparr>),
            totalBorrow := totalBorrow', totalReserves := totalReserves'\<rparr>)))))))"

definition repay :: "nat \<Rightarrow> address \<Rightarrow> nat \<Rightarrow> state \<Rightarrow> error + state" where
  "repay now sender v s =
     andThen (accrueInterest now (receive_value v s)) (\<lambda>s1.
     andThen (updateUserRewards now sender s1) (\<lambda>s2.
     repay_body sender v s2))"

definition setCollateralEnabled_body :: "address \<Rightarrow> bool \<Rightarrow> state \<Rightarrow> error + state" where
  "setCollateralEnabled_body sender enabled s =
     (let account = accounts s sender in
      andThen (if \<not> enabled \<and> borrowBalance account > 0 then
                 let borrowIdx = (if acc_borrowIndex account = 0 then borrowIndex s
                                  else acc_borrowIndex account) in
                 andThen (if borrowBalance account = 0 then Inr 0
                          else mul_div (borrowBalance account) (borrowIndex s) borrowIdx)
                   (\<lambda>userBorrowBalance.
                 require (userBorrowBalance = 0) ''Repay before disabling collateral'')
               else Inr ()) (\<lambda>_.
      Inr (s\<lparr>accounts := (accounts s)(sender := account\<lparr>collateralEnabled := enabled\<rparr>)\<rparr>)))"

definition setCollateralEnabled :: "nat \<Rightarrow> address \<Rightarrow> bool \<Rightarrow> state \<Rightarrow> error + state" where
  "setCollateralEnabled now sender enabled s =
     andThen (accrueInterest now s) (\<lambda>s1.
     andThen (updateUserRewards now sender s1) (\<lambda>s2.
     setCollateralEnabled_body sender enabled s2))"

definition claimRewards_body :: "nat \<Rightarrow> address \<Rightarrow> bool \<Rightarrow> state \<Rightarrow> error + state" where
  "claimRewards_body now sender accepts s =
     (let account = accounts s sender;
          rewardAmount = accruedRewards account in
      andThen (require (rewardAmount > 0) ''No rewards'') (\<lambda>_.
      let s' = s\<lparr>accounts := (accounts s)(sender := account\<lparr>accruedRewards := 0,
                                                         lastRewardUpdate := now\<rparr>)\<rparr>;
          rewardAmount' = (if rewardAmount > balance s' then balance s' else rewardAmount) in
      send_value accepts rewardAmount' ''Reward transfer failed'' s'))"

definition claimRewards :: "nat \<Rightarrow> address \<Rightarrow> bool \<Rightarrow> state \<Rightarrow> error + state" where
  "claimRewards now sender accepts s =
     andThen (accrueInterest now s) (\<lambda>s1.
     andThen (updateUserRewards now sender s1) (\<lambda>s2.
     claimRewards_body now sender accepts s2))"

definition liquidate_body :: "address \<Rightarrow> nat \<Rightarrow> address \<Rightarrow> bool \<Rightarrow> state \<Rightarrow> error + state" where
  "liquidate_body sender repayAmount borrower accepts s =
     andThen (revert_if (repayAmount = 0) InvalidAmount) (\<lambda>_.
     andThen (revert_if (borrower = sender) Revert) (\<lambda>_.
     let borrowerAccount = accounts s borrower in
     andThen (require (collateralEnabled borrowerAccount) ''No collateral'') (\<lambda>_.
     andThen (mul_div (supplyBalance borrowerAccount) (exchangeRate s) e18) (\<lambda>borrowerSupplyBalance.
     andThen (mul_div (borrowBalance borrowerAccount) (borrowIndex s)
                (acc_borrowIndex borrowerAccount)) (\<lambda>borrowerBorrowBalance.
     andThen (calculateHealthFactor borrowerSupplyBalance borrowerBorrowBalance) (\<lambda>healthFactor.
     andThen (require (healthFactor < e18) ''Not liquidatable'') (\<lambda>_.
     let repay = (if repayAmount > borrowerBorrowBalance then borrowerBorrowBalance
                  else repayAmount) in
     andThen (mul_div repay LIQUIDATION_BONUS 10000) (\<lambda>liquidationBonus.
     andThen (checked_add repay liquidationBonus) (\<lambda>seizeAmount.
     andThen (require (seizeAmount \<le> borrowerSupplyBalance) ''Insufficient collateral'') (\<lambda>_.
     andThen (checked_sub borrowerBorrowBalance repay) (\<lambda>remaining.
     andThen (mul_div remaining e18 (borrowIndex s)) (\<lambda>borrowBalance'.
     andThen (mul_div seizeAmount e18 (exchangeRate s)) (\<lambda>seizeAmountScaled.
     andThen (checked_sub (supplyBalance borrowerAccount) seizeAmountScaled) (\<lambda>supplyBalance'.
     andThen (checked_sub (totalBorrow s) repay) (\<lambda>totalBorrow'.
     andThen (checked_sub (totalSupply s) seizeAmount) (\<lambda>totalSupply'.
     send_value accepts seizeAmount ''Seize transfer failed''
       (s\<lparr>accounts := (accounts s)(borrower := borrowerAccount\<lparr>
                 borrowBalance := borrowBalance', acc_borrowIndex := borrowIndex s,
                 supplyBalance := supplyBalance', acc_supplyIndex := supplyIndex s\<rparr>),
          totalBorrow := totalBorrow', totalSupply := totalSupply'\<rparr>)))))))))))))))))"

definition liquidate :: "nat \<Rightarrow> address \<Rightarrow> nat \<Rightarrow> address \<Rightarrow> bool \<Rightarrow> state \<Rightarrow> error + state" where
  "liquidate now sender v borrower accepts s =
     andThen (accrueInterest now (receive_value v s)) (\<lambda>s1.
     liquidate_body sender v borrower accepts s1)"

section \<open>QieLendNative: views\<close>

definition getSupplyBalance :: "state \<Rightarrow> address \<Rightarrow> error + nat" where
  "getSupplyBalance s user =
     mul_div (supplyBalance (accounts s user)) (exchangeRate s) e18"

definition getBorrowBalance :: "state \<Rightarrow> address \<Rightarrow> error + nat" where
  "getBorrowBalance s user =
     (let account = accounts s user;
          borrowIdx = (if acc_borrowIndex account = 0 then borrowIndex s
                       else acc_borrowIndex account) in
      if borrowBalance account = 0 then Inr 0
      else mul_div (borrowBalance account) (borrowIndex s) borrowIdx)"

definition getHealthFactor :: "state \<Rightarrow> address \<Rightarrow> error + nat" where
  "getHealthFactor s user =
     (let account = accounts s user in
      if \<not> collateralEnabled account \<or> borrowBalance account = 0 then Inr MAX_UINT256
      else
        andThen (mul_div (supplyBalance account) (exchangeRate s) e18) (\<lambda>userSupplyBalance.
        let borrowIdx = (if acc_borrowIndex account = 0 then borrowIndex s
                         else acc_borrowIndex account) in
        andThen (if borrowBalance account = 0 then Inr 0
                 else mul_div (borrowBalance account) (borrowIndex s) borrowIdx)
          (\<lambda>userBorrowBalance.
        calculateHealthFactor userSupplyBalance userBorrowBalance)))"

definition getSupplyAPY :: "state \<Rightarrow> error + nat" where
  "getSupplyAPY s =
     (if totalSupply s = 0 then Inr BASE_RATE
      else
        andThen (mul_div (totalBorrow s) 10000 (totalSupply s)) (\<lambda>utilization.
        andThen (calculateBorrowRate utilization) (\<lambda>borrowRate.
        mul_div borrowRate (10000 - RESERVE_FACTOR) 10000)))"

definition getAccruedRewards :: "nat \<Rightarrow> state \<Rightarrow> address \<Rightarrow> error + nat" where
  "getAccruedRewards now s user =
     (let account = accounts s user in
      if supplyBalance account = 0 then Inr (accruedRewards account)
      else
        andThen (checked_sub now (lastRewardUpdate account)) (\<lambda>timeElapsed.
        if timeElapsed = 0 then Inr (accruedRewards account)
        else
          andThen (mul_div (supplyBalance account) (exchangeRate s) e18) (\<lambda>userSupplyBalance.
          andThen (getSupplyAPY s) (\<lambda>supplyAPY.
          andThen (mul_div supplyAPY e18 10000) (\<lambda>supplyRate.
          andThen (mul_div userSupplyBalance supplyRate SECONDS_PER_YEAR) (\<lambda>rewardsPerSecond.
          andThen (checked_mul rewardsPerSecond timeElapsed) (\<lambda>newRewards.
          checked_add (accruedRewards account) newRewards)))))))"

section \<open>Calls, runs and reachable states\<close>

datatype call =
    SupplyNative address nat
  | Withdraw address nat bool
  | Borrow address nat bool
  | Repay address nat
  | SetCollateralEnabled address bool
  | ClaimRewards address bool
  | Liquidate address nat address bool
  | Receive nat

fun exec :: "nat \<Rightarrow> call \<Rightarrow> state \<Rightarrow> error + state" where
  "exec now (SupplyNative sender v) s = supplyNative now sender v s"
| "exec now (Withdraw sender amount accepts) s = withdraw now sender amount accepts s"
| "exec now (Borrow sender amount accepts) s = borrow now sender amount accepts s"
| "exec now (Repay sender v) s = repay now sender v s"
| "exec now (SetCollateralEnabled sender enabled) s = setCollateralEnabled now sender enabled s"
| "exec now (ClaimRewards sender accepts) s = claimRewards now sender accepts s"
| "exec now (Liquidate sender v borrower accepts) s = liquidate now sender v borrower accepts s"
| "exec now (Receive v) s = Inr (receive_value v s)"

text \<open>A run applies timestamped calls in order and stops at the first revert.\<close>

fun run :: "(nat \<times> call) list \<Rightarrow> state \<Rightarrow> error + state" where
  "run [] s = Inr s"
| "run ((now, c) # cs) s = andThen (exec now c s) (run cs)"

inductive reachable :: "state \<Rightarrow> bool" where
  reachable_init: "reachable init"
| reachable_step: "reachable s \<Longrightarrow> exec now c s = Inr s' \<Longrightarrow> reachable s'"

section \<open>QieLend: the ERC20 version of the contract\<close>

text \<open>
  The repository's second contract, \<open>QieLend\<close>, keeps the same storage and moves an ERC20
  token instead of the native coin. Its constants differ, and so do a few of its lines.
  The names of its model carry the prefix \<open>QieLend_\<close>. In a \<open>QieLend\<close> state \<open>balance\<close> is
  the contract's token balance. The token contract is not part of the repository:
  \<open>qieToken.transfer\<close> is taken to succeed when the flag \<open>accepts\<close> holds and the
  contract's token balance covers the amount, \<open>qieToken.transferFrom\<close> when the flag \<open>pays\<close>
  holds (the sender has the tokens and has approved the contract).
\<close>

definition QieLend_COLLATERAL_FACTOR :: nat where "QieLend_COLLATERAL_FACTOR = 70"
definition QieLend_RESERVE_FACTOR :: nat where "QieLend_RESERVE_FACTOR = 12"
definition QieLend_BASE_RATE :: nat where "QieLend_BASE_RATE = 2"
definition QieLend_KINK_UTILIZATION :: nat where "QieLend_KINK_UTILIZATION = 80"
definition QieLend_MULTIPLIER :: nat where "QieLend_MULTIPLIER = 15"
definition QieLend_JUMP_MULTIPLIER :: nat where "QieLend_JUMP_MULTIPLIER = 100"

definition QieLend_calculateBorrowRate :: "nat \<Rightarrow> error + nat" where
  "QieLend_calculateBorrowRate utilization =
     (if utilization \<le> QieLend_KINK_UTILIZATION then
        andThen (mul_div utilization QieLend_MULTIPLIER QieLend_KINK_UTILIZATION) (\<lambda>q.
        checked_add QieLend_BASE_RATE q)
      else
        andThen (checked_sub utilization QieLend_KINK_UTILIZATION) (\<lambda>excessUtilization.
        andThen (checked_add QieLend_BASE_RATE QieLend_MULTIPLIER) (\<lambda>baseRate.
        andThen (mul_div excessUtilization QieLend_JUMP_MULTIPLIER
                   (10000 - QieLend_KINK_UTILIZATION)) (\<lambda>q.
        checked_add baseRate q))))"

definition QieLend_accrueInterest :: "nat \<Rightarrow> state \<Rightarrow> error + state" where
  "QieLend_accrueInterest now s =
     andThen (checked_sub now (lastUpdateTime s)) (\<lambda>timeElapsed.
     if timeElapsed = 0 \<or> totalSupply s = 0 then Inr (s\<lparr>lastUpdateTime := now\<rparr>)
     else
       andThen (if totalBorrow s > 0 then mul_div (totalBorrow s) e18 (totalSupply s)
                else Inr 0) (\<lambda>utilization.
       andThen (mul_div utilization 10000 e18) (\<lambda>u.
       andThen (QieLend_calculateBorrowRate u) (\<lambda>borrowRate.
       andThen (mul_div borrowRate e18 (10000 * SECONDS_PER_YEAR)) (\<lambda>borrowRatePerSecond.
       andThen (checked_mul (totalBorrow s) borrowRatePerSecond) (\<lambda>p.
       andThen (mul_div p timeElapsed e18) (\<lambda>interestAccrued.
       andThen (mul_div interestAccrued QieLend_RESERVE_FACTOR 10000) (\<lambda>reserveAmount.
       andThen (checked_sub interestAccrued reserveAmount) (\<lambda>supplyInterest.
       andThen (if totalSupply s > 0 then
                  andThen (mul_div supplyInterest e18 (totalSupply s)) (\<lambda>d.
                  checked_add (exchangeRate s) d)
                else Inr (exchangeRate s)) (\<lambda>exchangeRate'.
       andThen (if totalBorrow s > 0 then
                  andThen (mul_div interestAccrued e18 (totalBorrow s)) (\<lambda>d.
                  checked_add (borrowIndex s) d)
                else Inr (borrowIndex s)) (\<lambda>borrowIndex'.
       andThen (checked_add (totalReserves s) reserveAmount) (\<lambda>totalReserves'.
       andThen (checked_add (totalBorrow s) interestAccrued) (\<lambda>totalBorrow'.
       andThen (checked_add (totalSupply s) supplyInterest) (\<lambda>totalSupply'.
       Inr (s\<lparr>exchangeRate := exchangeRate', borrowIndex := borrowIndex',
              supplyIndex := exchangeRate', totalReserves := totalReserves',
              totalBorrow := totalBorrow', totalSupply := totalSupply',
              lastUpdateTime := now\<rparr>)))))))))))))))"

definition QieLend_updateUserRewards :: "nat \<Rightarrow> address \<Rightarrow> state \<Rightarrow> error + state" where
  "QieLend_updateUserRewards now user s =
     (let account = accounts s user in
      if supplyBalance account = 0 then
        Inr (s\<lparr>accounts := (accounts s)(user := account\<lparr>lastRewardUpdate := now\<rparr>)\<rparr>)
      else
        andThen (checked_sub now (lastRewardUpdate account)) (\<lambda>timeElapsed.
        if timeElapsed = 0 then Inr s
        else
          andThen (mul_div (supplyBalance account) (exchangeRate s) e18) (\<lambda>userSupplyBalance.
          andThen (if totalBorrow s > 0 then mul_div (totalBorrow s) 10000 (totalSupply s)
                   else Inr 0) (\<lambda>utilization.
          andThen (QieLend_calculateBorrowRate utilization) (\<lambda>borrowRate.
          andThen (mul_div borrowRate (10000 - QieLend_RESERVE_FACTOR) 10000) (\<lambda>supplyRate.
          andThen (mul_div supplyRate e18 (10000 * SECONDS_PER_YEAR)) (\<lambda>supplyRatePerSecond.
          andThen (mul_div userSupplyBalance supplyRatePerSecond e18) (\<lambda>rewardsPerSecond.
          andThen (checked_mul rewardsPerSecond timeElapsed) (\<lambda>newRewards.
          andThen (checked_add (accruedRewards account) newRewards) (\<lambda>accrued.
          Inr (s\<lparr>accounts := (accounts s)(user := account\<lparr>accruedRewards := accrued,
                                                          lastRewardUpdate := now\<rparr>)\<rparr>)))))))))))"

definition QieLend_withdraw_body :: "address \<Rightarrow> nat \<Rightarrow> bool \<Rightarrow> state \<Rightarrow> error + state" where
  "QieLend_withdraw_body sender amount accepts s =
     andThen (require (amount > 0) ''Amount must be greater than 0'') (\<lambda>_.
     let account = accounts s sender in
     andThen (mul_div (supplyBalance account) (exchangeRate s) e18) (\<lambda>userSupplyBalance.
     andThen (require (userSupplyBalance \<ge> amount) ''Insufficient balance'') (\<lambda>_.
     andThen (if collateralEnabled account \<and> borrowBalance account > 0 then
                andThen (checked_sub userSupplyBalance amount) (\<lambda>newSupplyBalance.
                andThen (mul_div newSupplyBalance QieLend_COLLATERAL_FACTOR 10000) (\<lambda>maxBorrow.
                require (borrowBalance account \<le> maxBorrow)
                  ''Cannot withdraw: would exceed collateral''))
              else Inr ()) (\<lambda>_.
     andThen (mul_div amount e18 (exchangeRate s)) (\<lambda>withdrawAmount.
     andThen (checked_sub (supplyBalance account) withdrawAmount) (\<lambda>supplyBalance'.
     andThen (checked_sub (totalSupply s) amount) (\<lambda>totalSupply'.
     send_value accepts amount ''Transfer failed''
       (s\<lparr>accounts := (accounts s)(sender := account\<lparr>supplyBalance := supplyBalance',
                                                    acc_supplyIndex := supplyIndex s\<rparr>),
          totalSupply := totalSupply'\<rparr>))))))))"

definition QieLend_withdraw :: "nat \<Rightarrow> address \<Rightarrow> nat \<Rightarrow> bool \<Rightarrow> state \<Rightarrow> error + state" where
  "QieLend_withdraw now sender amount accepts s =
     andThen (QieLend_accrueInterest now s) (\<lambda>s1.
     andThen (QieLend_updateUserRewards now sender s1) (\<lambda>s2.
     QieLend_withdraw_body sender amount accepts s2))"

definition QieLend_borrow_body :: "address \<Rightarrow> nat \<Rightarrow> bool \<Rightarrow> state \<Rightarrow> error + state" where
  "QieLend_borrow_body sender amount accepts s =
     andThen (require (amount > 0) ''Amount must be greater than 0'') (\<lambda>_.
     let account = accounts s sender in
     andThen (require (collateralEnabled account) ''Collateral must be enabled to borrow'') (\<lambda>_.
     andThen (mul_div (supplyBalance account) (exchangeRate s) e18) (\<lambda>userSupplyBalance.
     andThen (mul_div userSupplyBalance QieLend_COLLATERAL_FACTOR 10000) (\<lambda>maxBorrow.
     andThen (mul_div (borrowBalance account) (borrowIndex s) (acc_borrowIndex account))
       (\<lambda>userBorrowBalance.
     andThen (checked_add userBorrowBalance amount) (\<lambda>newBorrow.
     andThen (require (newBorrow \<le> maxBorrow) ''Exceeds borrowing capacity'') (\<lambda>_.
     andThen (checked_add (totalBorrow s) amount) (\<lambda>totalBorrow'.
     andThen (require (totalBorrow' \<le> totalSupply s) ''Insufficient protocol liquidity'') (\<lambda>_.
     andThen (mul_div amount e18 (borrowIndex s)) (\<lambda>scaled.
     andThen (checked_add (borrowBalance account) scaled) (\<lambda>borrowBalance'.
     send_value accepts amount ''Transfer failed''
       (s\<lparr>accounts := (accounts s)(sender := account\<lparr>borrowBalance := borrowBalance',
                                                    acc_borrowIndex := borrowIndex s\<rparr>),
          totalBorrow := totalBorrow'\<rparr>))))))))))))"

definition QieLend_LIQUIDATION_THRESHOLD :: nat where "QieLend_LIQUIDATION_THRESHOLD = 80"
definition QieLend_LIQUIDATION_BONUS :: nat where "QieLend_LIQUIDATION_BONUS = 5"

definition QieLend_calculateHealthFactor :: "nat \<Rightarrow> nat \<Rightarrow> error + nat" where
  "QieLend_calculateHealthFactor supplyBal borrowBal =
     (if borrowBal = 0 then Inr MAX_UINT256
      else
        andThen (mul_div supplyBal QieLend_LIQUIDATION_THRESHOLD 10000) (\<lambda>collateralValue.
        mul_div collateralValue e18 borrowBal))"

definition take_tokens :: "bool \<Rightarrow> nat \<Rightarrow> string \<Rightarrow> state \<Rightarrow> error + state" where
  "take_tokens pays amount msg s =
     andThen (require pays msg) (\<lambda>_. Inr (s\<lparr>balance := balance s + amount\<rparr>))"

definition QieLend_supply_body :: "address \<Rightarrow> nat \<Rightarrow> bool \<Rightarrow> state \<Rightarrow> error + state" where
  "QieLend_supply_body sender amount pays s =
     andThen (require (amount > 0) ''Amount must be greater than 0'') (\<lambda>_.
     andThen (take_tokens pays amount ''Transfer failed'' s) (\<lambda>s.
     let account = accounts s sender in
     andThen (mul_div amount e18 (exchangeRate s)) (\<lambda>supplyAmount.
     andThen (checked_add (supplyBalance account) supplyAmount) (\<lambda>supplyBalance'.
     andThen (checked_add (totalSupply s) amount) (\<lambda>totalSupply'.
     Inr (s\<lparr>accounts := (accounts s)(sender := account\<lparr>supplyBalance := supplyBalance',
                                                      acc_supplyIndex := supplyIndex s\<rparr>),
            totalSupply := totalSupply'\<rparr>))))))"

definition QieLend_supply :: "nat \<Rightarrow> address \<Rightarrow> nat \<Rightarrow> bool \<Rightarrow> state \<Rightarrow> error + state" where
  "QieLend_supply now sender amount pays s =
     andThen (QieLend_accrueInterest now s) (\<lambda>s1.
     andThen (QieLend_updateUserRewards now sender s1) (\<lambda>s2.
     QieLend_supply_body sender amount pays s2))"

definition QieLend_borrow :: "nat \<Rightarrow> address \<Rightarrow> nat \<Rightarrow> bool \<Rightarrow> state \<Rightarrow> error + state" where
  "QieLend_borrow now sender amount accepts s =
     andThen (QieLend_accrueInterest now s) (\<lambda>s1.
     andThen (QieLend_updateUserRewards now sender s1) (\<lambda>s2.
     QieLend_borrow_body sender amount accepts s2))"

definition QieLend_repay_body :: "address \<Rightarrow> nat \<Rightarrow> bool \<Rightarrow> state \<Rightarrow> error + state" where
  "QieLend_repay_body sender amount pays s =
     andThen (require (amount > 0) ''Amount must be greater than 0'') (\<lambda>_.
     let account = accounts s sender in
     andThen (mul_div (borrowBalance account) (borrowIndex s) (acc_borrowIndex account))
       (\<lambda>userBorrowBalance.
     let repayAmount = (if amount > userBorrowBalance then userBorrowBalance else amount) in
     andThen (take_tokens pays repayAmount ''Transfer failed'' s) (\<lambda>s.
     andThen (checked_sub userBorrowBalance repayAmount) (\<lambda>remaining.
     andThen (mul_div remaining e18 (borrowIndex s)) (\<lambda>borrowBalance'.
     andThen (checked_sub (totalBorrow s) repayAmount) (\<lambda>totalBorrow'.
     Inr (s\<lparr>accounts := (accounts s)(sender := account\<lparr>borrowBalance := borrowBalance',
                                                      acc_borrowIndex := borrowIndex s\<rparr>),
            totalBorrow := totalBorrow'\<rparr>)))))))"

definition QieLend_repay :: "nat \<Rightarrow> address \<Rightarrow> nat \<Rightarrow> bool \<Rightarrow> state \<Rightarrow> error + state" where
  "QieLend_repay now sender amount pays s =
     andThen (QieLend_accrueInterest now s) (\<lambda>s1.
     andThen (QieLend_updateUserRewards now sender s1) (\<lambda>s2.
     QieLend_repay_body sender amount pays s2))"

definition QieLend_setCollateralEnabled_body :: "address \<Rightarrow> bool \<Rightarrow> state \<Rightarrow> error + state" where
  "QieLend_setCollateralEnabled_body sender enabled s =
     (let account = accounts s sender in
      andThen (if \<not> enabled \<and> borrowBalance account > 0 then
                 andThen (mul_div (borrowBalance account) (borrowIndex s)
                            (acc_borrowIndex account)) (\<lambda>userBorrowBalance.
                 require (userBorrowBalance = 0)
                   ''Must repay all borrows before disabling collateral'')
               else Inr ()) (\<lambda>_.
      Inr (s\<lparr>accounts := (accounts s)(sender := account\<lparr>collateralEnabled := enabled\<rparr>)\<rparr>)))"

definition QieLend_setCollateralEnabled :: "nat \<Rightarrow> address \<Rightarrow> bool \<Rightarrow> state \<Rightarrow> error + state" where
  "QieLend_setCollateralEnabled now sender enabled s =
     andThen (QieLend_accrueInterest now s) (\<lambda>s1.
     andThen (QieLend_updateUserRewards now sender s1) (\<lambda>s2.
     QieLend_setCollateralEnabled_body sender enabled s2))"

definition QieLend_claimRewards_body :: "nat \<Rightarrow> address \<Rightarrow> bool \<Rightarrow> state \<Rightarrow> error + state" where
  "QieLend_claimRewards_body now sender accepts s =
     (let account = accounts s sender;
          rewardAmount = accruedRewards account in
      andThen (require (rewardAmount > 0) ''No rewards to claim'') (\<lambda>_.
      send_value accepts rewardAmount ''Reward transfer failed''
        (s\<lparr>accounts := (accounts s)(sender := account\<lparr>accruedRewards := 0,
                                                     lastRewardUpdate := now\<rparr>)\<rparr>)))"

definition QieLend_claimRewards :: "nat \<Rightarrow> address \<Rightarrow> bool \<Rightarrow> state \<Rightarrow> error + state" where
  "QieLend_claimRewards now sender accepts s =
     andThen (QieLend_accrueInterest now s) (\<lambda>s1.
     andThen (QieLend_updateUserRewards now sender s1) (\<lambda>s2.
     QieLend_claimRewards_body now sender accepts s2))"

definition QieLend_liquidate_body ::
  "address \<Rightarrow> address \<Rightarrow> nat \<Rightarrow> bool \<Rightarrow> bool \<Rightarrow> state \<Rightarrow> error + state" where
  "QieLend_liquidate_body sender borrower repayAmount pays accepts s =
     andThen (require (borrower \<noteq> sender) ''Cannot liquidate yourself'') (\<lambda>_.
     andThen (require (repayAmount > 0) ''Repay amount must be greater than 0'') (\<lambda>_.
     let borrowerAccount = accounts s borrower in
     andThen (require (collateralEnabled borrowerAccount) ''Borrower has no collateral'') (\<lambda>_.
     andThen (mul_div (supplyBalance borrowerAccount) (exchangeRate s) e18) (\<lambda>borrowerSupplyBalance.
     andThen (mul_div (borrowBalance borrowerAccount) (borrowIndex s)
                (acc_borrowIndex borrowerAccount)) (\<lambda>borrowerBorrowBalance.
     andThen (QieLend_calculateHealthFactor borrowerSupplyBalance borrowerBorrowBalance)
       (\<lambda>healthFactor.
     andThen (require (healthFactor < e18) ''Borrower is not liquidatable'') (\<lambda>_.
     andThen (mul_div repayAmount QieLend_LIQUIDATION_BONUS 10000) (\<lambda>liquidationBonus.
     andThen (checked_add repayAmount liquidationBonus) (\<lambda>seizeAmount.
     andThen (require (seizeAmount \<le> borrowerSupplyBalance) ''Insufficient collateral to seize'')
       (\<lambda>_.
     andThen (take_tokens pays repayAmount ''Repay transfer failed'' s) (\<lambda>s.
     andThen (checked_sub borrowerBorrowBalance repayAmount) (\<lambda>remaining.
     andThen (mul_div remaining e18 (borrowIndex s)) (\<lambda>borrowBalance'.
     andThen (mul_div seizeAmount e18 (exchangeRate s)) (\<lambda>seizeAmountScaled.
     andThen (checked_sub (supplyBalance borrowerAccount) seizeAmountScaled) (\<lambda>supplyBalance'.
     andThen (checked_sub (totalBorrow s) repayAmount) (\<lambda>totalBorrow'.
     andThen (checked_sub (totalSupply s) seizeAmount) (\<lambda>totalSupply'.
     send_value accepts seizeAmount ''Seize transfer failed''
       (s\<lparr>accounts := (accounts s)(borrower := borrowerAccount\<lparr>
                 borrowBalance := borrowBalance', acc_borrowIndex := borrowIndex s,
                 supplyBalance := supplyBalance', acc_supplyIndex := supplyIndex s\<rparr>),
          totalBorrow := totalBorrow', totalSupply := totalSupply'\<rparr>))))))))))))))))))"

definition QieLend_liquidate ::
  "nat \<Rightarrow> address \<Rightarrow> address \<Rightarrow> nat \<Rightarrow> bool \<Rightarrow> bool \<Rightarrow> state \<Rightarrow> error + state" where
  "QieLend_liquidate now sender borrower repayAmount pays accepts s =
     andThen (QieLend_accrueInterest now s) (\<lambda>s1.
     QieLend_liquidate_body sender borrower repayAmount pays accepts s1)"

text \<open>
  The constructor records the time of deployment; the rest of the storage starts as in
  \<open>QieLendNative\<close>. \<open>QieLend_TokensIn\<close> is a transfer of tokens to the contract's address
  by anyone, made in the token contract.
\<close>

definition QieLend_init :: "nat \<Rightarrow> state" where
  "QieLend_init deployed = init\<lparr>lastUpdateTime := deployed\<rparr>"

datatype QieLend_call =
    QieLend_Supply address nat bool
  | QieLend_Withdraw address nat bool
  | QieLend_Borrow address nat bool
  | QieLend_Repay address nat bool
  | QieLend_SetCollateralEnabled address bool
  | QieLend_ClaimRewards address bool
  | QieLend_Liquidate address address nat bool bool
  | QieLend_TokensIn nat

fun QieLend_exec :: "nat \<Rightarrow> QieLend_call \<Rightarrow> state \<Rightarrow> error + state" where
  "QieLend_exec now (QieLend_Supply sender amount pays) s = QieLend_supply now sender amount pays s"
| "QieLend_exec now (QieLend_Withdraw sender amount accepts) s =
     QieLend_withdraw now sender amount accepts s"
| "QieLend_exec now (QieLend_Borrow sender amount accepts) s =
     QieLend_borrow now sender amount accepts s"
| "QieLend_exec now (QieLend_Repay sender amount pays) s = QieLend_repay now sender amount pays s"
| "QieLend_exec now (QieLend_SetCollateralEnabled sender enabled) s =
     QieLend_setCollateralEnabled now sender enabled s"
| "QieLend_exec now (QieLend_ClaimRewards sender accepts) s =
     QieLend_claimRewards now sender accepts s"
| "QieLend_exec now (QieLend_Liquidate sender borrower repayAmount pays accepts) s =
     QieLend_liquidate now sender borrower repayAmount pays accepts s"
| "QieLend_exec now (QieLend_TokensIn v) s = Inr (receive_value v s)"

inductive QieLend_reachable :: "state \<Rightarrow> bool" where
  QieLend_reachable_init: "QieLend_reachable (QieLend_init deployed)"
| QieLend_reachable_step:
    "QieLend_reachable s \<Longrightarrow> QieLend_exec now c s = Inr s' \<Longrightarrow> QieLend_reachable s'"

fun QieLend_run :: "(nat \<times> QieLend_call) list \<Rightarrow> state \<Rightarrow> error + state" where
  "QieLend_run [] s = Inr s"
| "QieLend_run ((now, c) # cs) s = andThen (QieLend_exec now c s) (QieLend_run cs)"

section \<open>Invariants of the borrow bookkeeping\<close>

text \<open>
  \<open>same_position\<close> relates two records of an account that differ at most in the reward
  fields. \<open>borrow_inv\<close> is the invariant that the reachable states keep: no account's stored
  index is above the contract's index, and an account with a stored debt has its
  collateral enabled and a stored index that is not 0.
\<close>

definition same_position :: "UserAccount \<Rightarrow> UserAccount \<Rightarrow> bool" where
  "same_position a b \<longleftrightarrow> supplyBalance a = supplyBalance b \<and> borrowBalance a = borrowBalance b
     \<and> acc_supplyIndex a = acc_supplyIndex b \<and> acc_borrowIndex a = acc_borrowIndex b
     \<and> collateralEnabled a = collateralEnabled b"

definition account_ok :: "nat \<Rightarrow> UserAccount \<Rightarrow> bool" where
  "account_ok bi a \<longleftrightarrow> acc_borrowIndex a \<le> bi
     \<and> (0 < borrowBalance a \<longrightarrow> collateralEnabled a \<and> 0 < acc_borrowIndex a)"

definition borrow_inv :: "state \<Rightarrow> bool" where
  "borrow_inv s \<longleftrightarrow> 0 < borrowIndex s \<and> (\<forall>u. account_ok (borrowIndex s) (accounts s u))"

text \<open>\<open>no_debt\<close> is the invariant of \<open>QieLend\<close>: no account has a stored debt or a stored index.\<close>

definition no_debt :: "state \<Rightarrow> bool" where
  "no_debt s \<longleftrightarrow> (\<forall>u. borrowBalance (accounts s u) = 0 \<and> acc_borrowIndex (accounts s u) = 0)"

section \<open>Kinds of calls\<close>

text \<open>
  \<open>msg_value\<close> is the native value that a call carries. \<open>liquidity_preserving\<close> holds of the
  calls whose own effect never lowers \<open>totalSupply\<close> and never raises \<open>totalBorrow\<close>
  unchecked: \<open>supplyNative\<close>, \<open>borrow\<close>, \<open>repay\<close>, \<open>setCollateralEnabled\<close> and \<open>claimRewards\<close>.
\<close>

fun msg_value :: "call \<Rightarrow> nat" where
  "msg_value (SupplyNative sender v) = v"
| "msg_value (Repay sender v) = v"
| "msg_value (Liquidate sender v borrower accepts) = v"
| "msg_value (Receive v) = v"
| "msg_value (Withdraw sender amount accepts) = 0"
| "msg_value (Borrow sender amount accepts) = 0"
| "msg_value (SetCollateralEnabled sender enabled) = 0"
| "msg_value (ClaimRewards sender accepts) = 0"

fun liquidity_preserving :: "call \<Rightarrow> bool" where
  "liquidity_preserving (SupplyNative sender v) = True"
| "liquidity_preserving (Borrow sender amount accepts) = True"
| "liquidity_preserving (Repay sender v) = True"
| "liquidity_preserving (SetCollateralEnabled sender enabled) = True"
| "liquidity_preserving (ClaimRewards sender accepts) = True"
| "liquidity_preserving (Withdraw sender amount accepts) = False"
| "liquidity_preserving (Liquidate sender v borrower accepts) = False"
| "liquidity_preserving (Receive v) = False"

section \<open>Concrete histories and states\<close>

text \<open>
  The histories below are runs of \<open>QieLendNative\<close> from its initial storage. Account 1
  supplies at time 1000, enables its collateral and borrows; the states that follow are
  the storage after such a run and after one more call, a year or more later. They are
  the inputs at which the theorems of the later sections evaluate the contract.
\<close>

definition history_borrowed :: "(nat \<times> call) list" where
  "history_borrowed =
     [(1000, SupplyNative 1 (1000 * e18)),
      (1000, SetCollateralEnabled 1 True),
      (1000, Borrow 1 (500 * e18) True)]"

definition history_borrowed70 :: "(nat \<times> call) list" where
  "history_borrowed70 =
     [(1000, SupplyNative 1 (1000 * e18)),
      (1000, SetCollateralEnabled 1 True),
      (1000, Borrow 1 (700 * e18) True)]"

definition history_supplied :: "(nat \<times> call) list" where
  "history_supplied =
     [(1000, SupplyNative 1 (1000 * e18)),
      (1000, SetCollateralEnabled 1 True)]"

definition history_small :: "(nat \<times> call) list" where
  "history_small =
     [(1000, SupplyNative 1 1000),
      (1000, SetCollateralEnabled 1 True),
      (1000, Borrow 1 700 True)]"

definition history_disabled :: "(nat \<times> call) list" where
  "history_disabled =
     history_borrowed @
     [(1000, SupplyNative 2 (1000 * e18)),
      (1000, SetCollateralEnabled 2 True),
      (1000, Borrow 2 (100 * e18) True),
      (31537000, Repay 1 (600 * e18)),
      (31537000, SetCollateralEnabled 1 False)]"

definition history_underwater :: "(nat \<times> call) list" where
  "history_underwater =
     history_borrowed70 @ [(473041000, SetCollateralEnabled 1 True)]"

definition history_drained :: "(nat \<times> call) list" where
  "history_drained =
     [(1000, SupplyNative 1 (1000 * e18)),
      (1000, SetCollateralEnabled 1 True),
      (1000, Borrow 1 (100 * e18) True),
      (1000, SupplyNative 2 (1000 * e18)),
      (1000, SetCollateralEnabled 2 True),
      (1000, Borrow 2 (700 * e18) True),
      (473041000, ClaimRewards 2 True),
      (473041000, ClaimRewards 1 True)]"

definition st_borrowed :: state where
  "st_borrowed = \<lparr>totalSupply = 1000000000000000000000, totalBorrow = 500000000000000000000,
     totalReserves = 0, lastUpdateTime = 1000,
     exchangeRate = 1000000000000000000, supplyIndex = 1000000000000000000,
     borrowIndex = 1000000000000000000,
     accounts = (\<lambda>_. empty_account)
       (1 := \<lparr>supplyBalance = 1000000000000000000000, borrowBalance = 500000000000000000000,
        acc_supplyIndex = 1000000000000000000, acc_borrowIndex = 1000000000000000000,
        collateralEnabled = True, accruedRewards = 0,
        lastRewardUpdate = 1000\<rparr>),
     balance = 500000000000000000000\<rparr>"

definition st_accrued :: state where
  "st_accrued = \<lparr>totalSupply = 1020999999991830400000, totalBorrow = 534999999986384000000,
     totalReserves = 13999999994553600000, lastUpdateTime = 31537000,
     exchangeRate = 1020999999991830400, supplyIndex = 1020999999991830400,
     borrowIndex = 1069999999972768000,
     accounts = (\<lambda>_. empty_account)
       (1 := \<lparr>supplyBalance = 1000000000000000000000, borrowBalance = 500000000000000000000,
        acc_supplyIndex = 1000000000000000000, acc_borrowIndex = 1000000000000000000,
        collateralEnabled = True, accruedRewards = 0,
        lastRewardUpdate = 1000\<rparr>),
     balance = 500000000000000000000\<rparr>"

definition st_reborrowed :: state where
  "st_reborrowed = \<lparr>totalSupply = 1020999999991830400000, totalBorrow = 534999999986384000001,
     totalReserves = 13999999994553600000, lastUpdateTime = 31537000,
     exchangeRate = 1020999999991830400, supplyIndex = 1020999999991830400,
     borrowIndex = 1069999999972768000,
     accounts = (\<lambda>_. empty_account)
       (1 := \<lparr>supplyBalance = 1000000000000000000000, borrowBalance = 500000000000000000000,
        acc_supplyIndex = 1000000000000000000, acc_borrowIndex = 1069999999972768000,
        collateralEnabled = True, accruedRewards = 44209299970739520000,
        lastRewardUpdate = 31537000\<rparr>),
     balance = 499999999999999999999\<rparr>"

definition st_repaid :: state where
  "st_repaid = \<lparr>totalSupply = 1020999999991830400000, totalBorrow = 534999999986383999999,
     totalReserves = 13999999994553600000, lastUpdateTime = 31537000,
     exchangeRate = 1020999999991830400, supplyIndex = 1020999999991830400,
     borrowIndex = 1069999999972768000,
     accounts = (\<lambda>_. empty_account)
       (1 := \<lparr>supplyBalance = 1000000000000000000000, borrowBalance = 499999999999999999999,
        acc_supplyIndex = 1000000000000000000, acc_borrowIndex = 1069999999972768000,
        collateralEnabled = True, accruedRewards = 44209299970739520000,
        lastRewardUpdate = 31537000\<rparr>),
     balance = 500000000000000000001\<rparr>"

definition st_synced :: state where
  "st_synced = \<lparr>totalSupply = 1000000000000000000000, totalBorrow = 500000000000000000000,
     totalReserves = 0, lastUpdateTime = 1000,
     exchangeRate = 1000000000000000000, supplyIndex = 1000000000000000000,
     borrowIndex = 1000000000000000000,
     accounts = (\<lambda>_. empty_account)
       (1 := \<lparr>supplyBalance = 1000000000000000000000, borrowBalance = 500000000000000000000,
        acc_supplyIndex = 1000000000000000000, acc_borrowIndex = 1000000000000000000,
        collateralEnabled = True, accruedRewards = 1331811263000,
        lastRewardUpdate = 1001\<rparr>),
     balance = 500000000000000000000\<rparr>"

definition st_borrowed70 :: state where
  "st_borrowed70 = \<lparr>totalSupply = 1000000000000000000000, totalBorrow = 700000000000000000000,
     totalReserves = 0, lastUpdateTime = 1000,
     exchangeRate = 1000000000000000000, supplyIndex = 1000000000000000000,
     borrowIndex = 1000000000000000000,
     accounts = (\<lambda>_. empty_account)
       (1 := \<lparr>supplyBalance = 1000000000000000000000, borrowBalance = 700000000000000000000,
        acc_supplyIndex = 1000000000000000000, acc_borrowIndex = 1000000000000000000,
        collateralEnabled = True, accruedRewards = 0,
        lastRewardUpdate = 1000\<rparr>),
     balance = 300000000000000000000\<rparr>"

definition st_underwater :: state where
  "st_underwater = \<lparr>totalSupply = 1566999999892950400000, totalBorrow = 1644999999821584000000,
     totalReserves = 377999999928633600000, lastUpdateTime = 473041000,
     exchangeRate = 1566999999892950400, supplyIndex = 1566999999892950400,
     borrowIndex = 2349999999745120000,
     accounts = (\<lambda>_. empty_account)
       (1 := \<lparr>supplyBalance = 1000000000000000000000, borrowBalance = 700000000000000000000,
        acc_supplyIndex = 1000000000000000000, acc_borrowIndex = 1000000000000000000,
        collateralEnabled = True, accruedRewards = 4931348999519059920000,
        lastRewardUpdate = 473041000\<rparr>),
     balance = 300000000000000000000\<rparr>"

definition st_supplied :: state where
  "st_supplied = \<lparr>totalSupply = 1000000000000000000000, totalBorrow = 0,
     totalReserves = 0, lastUpdateTime = 1000,
     exchangeRate = 1000000000000000000, supplyIndex = 1000000000000000000,
     borrowIndex = 1000000000000000000,
     accounts = (\<lambda>_. empty_account)
       (1 := \<lparr>supplyBalance = 1000000000000000000000, borrowBalance = 0,
        acc_supplyIndex = 1000000000000000000, acc_borrowIndex = 0,
        collateralEnabled = True, accruedRewards = 0,
        lastRewardUpdate = 1000\<rparr>),
     balance = 1000000000000000000000\<rparr>"

definition st_dust_supplied :: state where
  "st_dust_supplied = \<lparr>totalSupply = 1020999999991830400001, totalBorrow = 534999999986384000000,
     totalReserves = 13999999994553600000, lastUpdateTime = 31537000,
     exchangeRate = 1020999999991830400, supplyIndex = 1020999999991830400,
     borrowIndex = 1069999999972768000,
     accounts = (\<lambda>_. empty_account)
       (1 := \<lparr>supplyBalance = 1000000000000000000000, borrowBalance = 500000000000000000000,
        acc_supplyIndex = 1000000000000000000, acc_borrowIndex = 1000000000000000000,
        collateralEnabled = True, accruedRewards = 0,
        lastRewardUpdate = 1000\<rparr>,
        2 := \<lparr>supplyBalance = 0, borrowBalance = 0,
        acc_supplyIndex = 1020999999991830400, acc_borrowIndex = 0,
        collateralEnabled = False, accruedRewards = 0,
        lastRewardUpdate = 31537000\<rparr>),
     balance = 500000000000000000001\<rparr>"

definition st_before_sync :: state where
  "st_before_sync = \<lparr>totalSupply = 1377999999928633600000, totalBorrow = 1329999999881056000000,
     totalReserves = 251999999952422400000, lastUpdateTime = 315361000,
     exchangeRate = 1377999999928633600, supplyIndex = 1377999999928633600,
     borrowIndex = 1899999999830080000,
     accounts = (\<lambda>_. empty_account)
       (1 := \<lparr>supplyBalance = 1000000000000000000000, borrowBalance = 700000000000000000000,
        acc_supplyIndex = 1000000000000000000, acc_borrowIndex = 1000000000000000000,
        collateralEnabled = True, accruedRewards = 0,
        lastRewardUpdate = 1000\<rparr>),
     balance = 300000000000000000000\<rparr>"

definition st_before_claim :: state where
  "st_before_claim = \<lparr>totalSupply = 1377999999928633600000, totalBorrow = 1329999999881056000000,
     totalReserves = 251999999952422400000, lastUpdateTime = 315361000,
     exchangeRate = 1377999999928633600, supplyIndex = 1377999999928633600,
     borrowIndex = 1899999999830080000,
     accounts = (\<lambda>_. empty_account)
       (1 := \<lparr>supplyBalance = 1000000000000000000000, borrowBalance = 700000000000000000000,
        acc_supplyIndex = 1000000000000000000, acc_borrowIndex = 1000000000000000000,
        collateralEnabled = True, accruedRewards = 2191019999704574400000,
        lastRewardUpdate = 315361000\<rparr>),
     balance = 300000000000000000000\<rparr>"

definition st_claimed :: state where
  "st_claimed = \<lparr>totalSupply = 1377999999928633600000, totalBorrow = 1329999999881056000000,
     totalReserves = 251999999952422400000, lastUpdateTime = 315361000,
     exchangeRate = 1377999999928633600, supplyIndex = 1377999999928633600,
     borrowIndex = 1899999999830080000,
     accounts = (\<lambda>_. empty_account)
       (1 := \<lparr>supplyBalance = 1000000000000000000000, borrowBalance = 700000000000000000000,
        acc_supplyIndex = 1000000000000000000, acc_borrowIndex = 1000000000000000000,
        collateralEnabled = True, accruedRewards = 0,
        lastRewardUpdate = 315361000\<rparr>),
     balance = 0\<rparr>"

definition st_disabled :: state where
  "st_disabled = \<lparr>totalSupply = 2017999999997863040000, totalBorrow = 104999999999406400000,
     totalReserves = 87000000001543360000, lastUpdateTime = 31537000,
     exchangeRate = 1008999999998931520, supplyIndex = 1008999999998931520,
     borrowIndex = 1049999999994064000,
     accounts = (\<lambda>_. empty_account)
       (1 := \<lparr>supplyBalance = 1000000000000000000000, borrowBalance = 0,
        acc_supplyIndex = 1000000000000000000, acc_borrowIndex = 1049999999994064000,
        collateralEnabled = False, accruedRewards = 30976299971249040000,
        lastRewardUpdate = 31537000\<rparr>,
        2 := \<lparr>supplyBalance = 1000000000000000000000, borrowBalance = 100000000000000000000,
        acc_supplyIndex = 1000000000000000000, acc_borrowIndex = 1000000000000000000,
        collateralEnabled = True, accruedRewards = 0,
        lastRewardUpdate = 1000\<rparr>),
     balance = 2000000000000000000000\<rparr>"

definition st_disabled_later :: state where
  "st_disabled_later = \<lparr>totalSupply = 2019587599995885440768, totalBorrow = 107645999996110401280,
     totalReserves = 88058400000224960512, lastUpdateTime = 63073000,
     exchangeRate = 1009786719522233840, supplyIndex = 1009786719522233840,
     borrowIndex = 1075199999962815999,
     accounts = (\<lambda>_. empty_account)
       (1 := \<lparr>supplyBalance = 1000000000000000000000, borrowBalance = 0,
        acc_supplyIndex = 1000000000000000000, acc_borrowIndex = 1049999999994064000,
        collateralEnabled = False, accruedRewards = 30976299971249040000,
        lastRewardUpdate = 31537000\<rparr>,
        2 := \<lparr>supplyBalance = 1000000000000000000000, borrowBalance = 100000000000000000000,
        acc_supplyIndex = 1000000000000000000, acc_borrowIndex = 1000000000000000000,
        collateralEnabled = True, accruedRewards = 0,
        lastRewardUpdate = 1000\<rparr>),
     balance = 2000000000000000000000\<rparr>"

definition st_small :: state where
  "st_small = \<lparr>totalSupply = 1000, totalBorrow = 700,
     totalReserves = 0, lastUpdateTime = 1000,
     exchangeRate = 1000000000000000000, supplyIndex = 1000000000000000000,
     borrowIndex = 1000000000000000000,
     accounts = (\<lambda>_. empty_account)
       (1 := \<lparr>supplyBalance = 1000, borrowBalance = 700,
        acc_supplyIndex = 1000000000000000000, acc_borrowIndex = 1000000000000000000,
        collateralEnabled = True, accruedRewards = 0,
        lastRewardUpdate = 1000\<rparr>),
     balance = 300\<rparr>"

definition st_small_at_boundary :: state where
  "st_small_at_boundary = \<lparr>totalSupply = 1116, totalBorrow = 893,
     totalReserves = 77, lastUpdateTime = 96682600,
     exchangeRate = 1116000000000000000, supplyIndex = 1116000000000000000,
     borrowIndex = 1275714285714285714,
     accounts = (\<lambda>_. empty_account)
       (1 := \<lparr>supplyBalance = 1000, borrowBalance = 700,
        acc_supplyIndex = 1000000000000000000, acc_borrowIndex = 1000000000000000000,
        collateralEnabled = True, accruedRewards = 0,
        lastRewardUpdate = 1000\<rparr>),
     balance = 400\<rparr>"

definition st_small_below :: state where
  "st_small_below = \<lparr>totalSupply = 1117, totalBorrow = 895,
     totalReserves = 78, lastUpdateTime = 97633000,
     exchangeRate = 1117000000000000000, supplyIndex = 1117000000000000000,
     borrowIndex = 1278571428571428571,
     accounts = (\<lambda>_. empty_account)
       (1 := \<lparr>supplyBalance = 1000, borrowBalance = 700,
        acc_supplyIndex = 1000000000000000000, acc_borrowIndex = 1000000000000000000,
        collateralEnabled = True, accruedRewards = 0,
        lastRewardUpdate = 1000\<rparr>),
     balance = 400\<rparr>"

definition st_small_liquidated :: state where
  "st_small_liquidated = \<lparr>totalSupply = 1017, totalBorrow = 795,
     totalReserves = 78, lastUpdateTime = 97633000,
     exchangeRate = 1117000000000000000, supplyIndex = 1117000000000000000,
     borrowIndex = 1278571428571428571,
     accounts = (\<lambda>_. empty_account)
       (1 := \<lparr>supplyBalance = 911, borrowBalance = 621,
        acc_supplyIndex = 1117000000000000000, acc_borrowIndex = 1278571428571428571,
        collateralEnabled = True, accruedRewards = 0,
        lastRewardUpdate = 1000\<rparr>),
     balance = 300\<rparr>"

definition st_unit_synced :: state where
  "st_unit_synced = \<lparr>totalSupply = 1020999999991830400000, totalBorrow = 534999999986384000000,
     totalReserves = 13999999994553600000, lastUpdateTime = 31537000,
     exchangeRate = 1020999999991830400, supplyIndex = 1020999999991830400,
     borrowIndex = 1069999999972768000,
     accounts = (\<lambda>_. empty_account)
       (1 := \<lparr>supplyBalance = 1000000000000000000000, borrowBalance = 500000000000000000000,
        acc_supplyIndex = 1000000000000000000, acc_borrowIndex = 1000000000000000000,
        collateralEnabled = True, accruedRewards = 44209299970739520000,
        lastRewardUpdate = 31537000\<rparr>),
     balance = 500000000000000000001\<rparr>"

definition st_unit_supplied :: state where
  "st_unit_supplied = \<lparr>totalSupply = 1020999999991830400001, totalBorrow = 534999999986384000000,
     totalReserves = 13999999994553600000, lastUpdateTime = 31537000,
     exchangeRate = 1020999999991830400, supplyIndex = 1020999999991830400,
     borrowIndex = 1069999999972768000,
     accounts = (\<lambda>_. empty_account)
       (1 := \<lparr>supplyBalance = 1000000000000000000000, borrowBalance = 500000000000000000000,
        acc_supplyIndex = 1020999999991830400, acc_borrowIndex = 1000000000000000000,
        collateralEnabled = True, accruedRewards = 44209299970739520000,
        lastRewardUpdate = 31537000\<rparr>),
     balance = 500000000000000000001\<rparr>"

definition st_unit_withdrawn :: state where
  "st_unit_withdrawn = \<lparr>totalSupply = 1020999999991830400000, totalBorrow = 534999999986384000000,
     totalReserves = 13999999994553600000, lastUpdateTime = 31537000,
     exchangeRate = 1020999999991830400, supplyIndex = 1020999999991830400,
     borrowIndex = 1069999999972768000,
     accounts = (\<lambda>_. empty_account)
       (1 := \<lparr>supplyBalance = 1000000000000000000000, borrowBalance = 500000000000000000000,
        acc_supplyIndex = 1020999999991830400, acc_borrowIndex = 1000000000000000000,
        collateralEnabled = True, accruedRewards = 44209299970739520000,
        lastRewardUpdate = 31537000\<rparr>),
     balance = 500000000000000000000\<rparr>"

definition st_resupplied :: state where
  "st_resupplied = \<lparr>totalSupply = 1005000000000000000000, totalBorrow = 500000000000000000000,
     totalReserves = 0, lastUpdateTime = 1000,
     exchangeRate = 1000000000000000000, supplyIndex = 1000000000000000000,
     borrowIndex = 1000000000000000000,
     accounts = (\<lambda>_. empty_account)
       (1 := \<lparr>supplyBalance = 1005000000000000000000, borrowBalance = 500000000000000000000,
        acc_supplyIndex = 1000000000000000000, acc_borrowIndex = 1000000000000000000,
        collateralEnabled = True, accruedRewards = 0,
        lastRewardUpdate = 1000\<rparr>),
     balance = 505000000000000000000\<rparr>"

definition st_over_limit_supplied :: state where
  "st_over_limit_supplied = \<lparr>totalSupply = 1038799999992863360000, totalBorrow = 762999999988105600000,
     totalReserves = 25199999995242240000, lastUpdateTime = 31537000,
     exchangeRate = 1037799999992863360, supplyIndex = 1037799999992863360,
     borrowIndex = 1089999999983008000,
     accounts = (\<lambda>_. empty_account)
       (1 := \<lparr>supplyBalance = 1000963576797077352766, borrowBalance = 700000000000000000000,
        acc_supplyIndex = 1037799999992863360, acc_borrowIndex = 1000000000000000000,
        collateralEnabled = True, accruedRewards = 58220579990125296000,
        lastRewardUpdate = 31537000\<rparr>),
     balance = 301000000000000000000\<rparr>"

definition st_drained :: state where
  "st_drained = \<lparr>totalSupply = 2431999999994124800000, totalBorrow = 1519999999990208000000,
     totalReserves = 287999999996083200000, lastUpdateTime = 473041000,
     exchangeRate = 1215999999997062400, supplyIndex = 1215999999997062400,
     borrowIndex = 1899999999987760000,
     accounts = (\<lambda>_. empty_account)
       (1 := \<lparr>supplyBalance = 1000000000000000000000, borrowBalance = 100000000000000000000,
        acc_supplyIndex = 1000000000000000000, acc_borrowIndex = 1000000000000000000,
        collateralEnabled = True, accruedRewards = 0,
        lastRewardUpdate = 473041000\<rparr>,
        2 := \<lparr>supplyBalance = 1000000000000000000000, borrowBalance = 700000000000000000000,
        acc_supplyIndex = 1000000000000000000, acc_borrowIndex = 1000000000000000000,
        collateralEnabled = True, accruedRewards = 0,
        lastRewardUpdate = 473041000\<rparr>),
     balance = 0\<rparr>"

definition st_year_synced :: state where
  "st_year_synced = \<lparr>totalSupply = 1020999999991830400000, totalBorrow = 534999999986384000000,
     totalReserves = 13999999994553600000, lastUpdateTime = 31537000,
     exchangeRate = 1020999999991830400, supplyIndex = 1020999999991830400,
     borrowIndex = 1069999999972768000,
     accounts = (\<lambda>_. empty_account)
       (1 := \<lparr>supplyBalance = 1000000000000000000000, borrowBalance = 500000000000000000000,
        acc_supplyIndex = 1000000000000000000, acc_borrowIndex = 1000000000000000000,
        collateralEnabled = True, accruedRewards = 44209299970739520000,
        lastRewardUpdate = 31537000\<rparr>),
     balance = 500000000000000000000\<rparr>"

definition st_year_withdrawn :: state where
  "st_year_withdrawn = \<lparr>totalSupply = 920999999991830400000, totalBorrow = 534999999986384000000,
     totalReserves = 13999999994553600000, lastUpdateTime = 31537000,
     exchangeRate = 1020999999991830400, supplyIndex = 1020999999991830400,
     borrowIndex = 1069999999972768000,
     accounts = (\<lambda>_. empty_account)
       (1 := \<lparr>supplyBalance = 902056807051126193233, borrowBalance = 500000000000000000000,
        acc_supplyIndex = 1020999999991830400, acc_borrowIndex = 1000000000000000000,
        collateralEnabled = True, accruedRewards = 44209299970739520000,
        lastRewardUpdate = 31537000\<rparr>),
     balance = 400000000000000000000\<rparr>"

text \<open>
  A run of \<open>QieLend\<close>, deployed at time 1000: account 1 supplies 1000000 tokens and enables
  its collateral.
\<close>

definition QieLend_history_supplied :: "(nat \<times> QieLend_call) list" where
  "QieLend_history_supplied =
     [(1000, QieLend_Supply 1 (1000000 * e18) True),
      (1000, QieLend_SetCollateralEnabled 1 True)]"

definition QieLend_st_supplied :: state where
  "QieLend_st_supplied = \<lparr>totalSupply = 1000000000000000000000000, totalBorrow = 0,
     totalReserves = 0, lastUpdateTime = 1000,
     exchangeRate = 1000000000000000000, supplyIndex = 1000000000000000000,
     borrowIndex = 1000000000000000000,
     accounts = (\<lambda>_. empty_account)
       (1 := \<lparr>supplyBalance = 1000000000000000000000000, borrowBalance = 0,
        acc_supplyIndex = 1000000000000000000, acc_borrowIndex = 0,
        collateralEnabled = True, accruedRewards = 0,
        lastRewardUpdate = 1000\<rparr>),
     balance = 1000000000000000000000000\<rparr>"

section \<open>Evaluation and inversion lemmas\<close>

lemma MAX_UINT256_numeral:
  "MAX_UINT256 =
     115792089237316195423570985008687907853269984665640564039457584007913129639935"
  by (simp add: MAX_UINT256_def)

lemma andThen_Inr [simp]: "andThen (Inr x) f = f x"
  by (simp add: andThen_def)

lemma andThen_Inl [simp]: "andThen (Inl e) f = Inl e"
  by (simp add: andThen_def)

lemmas consts_defs = COLLATERAL_FACTOR_def LIQUIDATION_THRESHOLD_def LIQUIDATION_BONUS_def
  RESERVE_FACTOR_def SECONDS_PER_YEAR_def BASE_RATE_def KINK_UTILIZATION_def MULTIPLIER_def
  JUMP_MULTIPLIER_def

lemmas arith_defs = checked_add_def checked_sub_def checked_mul_def checked_div_def
  mul_div_def revert_if_def require_def

lemmas eval_defs = arith_defs MAX_UINT256_numeral consts_defs Let_def
  send_value_def receive_value_def calculateBorrowRate_def calculateHealthFactor_def
  accrueInterest_def updateUserRewards_def
  supplyNative_def supplyNative_body_def withdraw_def withdraw_body_def
  borrow_def borrow_body_def repay_def repay_body_def
  setCollateralEnabled_def setCollateralEnabled_body_def
  claimRewards_def claimRewards_body_def liquidate_def liquidate_body_def
  getSupplyBalance_def getBorrowBalance_def getHealthFactor_def getSupplyAPY_def
  getAccruedRewards_def init_def empty_account_def

lemmas QieLend_eval_defs = arith_defs MAX_UINT256_numeral SECONDS_PER_YEAR_def Let_def
  send_value_def QieLend_COLLATERAL_FACTOR_def QieLend_RESERVE_FACTOR_def
  QieLend_BASE_RATE_def QieLend_KINK_UTILIZATION_def QieLend_MULTIPLIER_def
  QieLend_JUMP_MULTIPLIER_def QieLend_calculateBorrowRate_def QieLend_accrueInterest_def
  QieLend_updateUserRewards_def QieLend_withdraw_def QieLend_withdraw_body_def
  QieLend_borrow_def QieLend_borrow_body_def QieLend_supply_def QieLend_supply_body_def
  QieLend_setCollateralEnabled_def QieLend_setCollateralEnabled_body_def take_tokens_def
  QieLend_init_def init_def empty_account_def

lemma andThen_eq_Inr: "andThen m f = Inr y \<longleftrightarrow> (\<exists>x. m = Inr x \<and> f x = Inr y)"
  by (cases m) simp_all

lemma andThen_eq_Inl: "andThen m f = Inl e \<longleftrightarrow> m = Inl e \<or> (\<exists>x. m = Inr x \<and> f x = Inl e)"
  by (cases m) auto

lemma checked_add_eq_Inr: "checked_add a b = Inr c \<longleftrightarrow> a + b \<le> MAX_UINT256 \<and> c = a + b"
  by (auto simp: checked_add_def)

lemma checked_sub_eq_Inr: "checked_sub a b = Inr c \<longleftrightarrow> b \<le> a \<and> c = a - b"
  by (auto simp: checked_sub_def)

lemma checked_mul_eq_Inr: "checked_mul a b = Inr c \<longleftrightarrow> a * b \<le> MAX_UINT256 \<and> c = a * b"
  by (auto simp: checked_mul_def)

lemma checked_div_eq_Inr: "checked_div a b = Inr c \<longleftrightarrow> b \<noteq> 0 \<and> c = a div b"
  by (auto simp: checked_div_def)

lemma mul_div_eq_Inr:
  "mul_div a b c = Inr d \<longleftrightarrow> a * b \<le> MAX_UINT256 \<and> c \<noteq> 0 \<and> d = a * b div c"
  by (auto simp: mul_div_def andThen_eq_Inr checked_mul_eq_Inr checked_div_eq_Inr)

lemma revert_if_eq_Inr: "revert_if c e = Inr u \<longleftrightarrow> \<not> c"
  by (simp add: revert_if_def)

lemma require_eq_Inr: "require c msg = Inr u \<longleftrightarrow> c"
  by (simp add: require_def)

lemmas success_simps = andThen_eq_Inr checked_add_eq_Inr checked_sub_eq_Inr checked_mul_eq_Inr
  checked_div_eq_Inr mul_div_eq_Inr revert_if_eq_Inr require_eq_Inr

lemma send_value_eq_Inr:
  "send_value accepts amount msg s = Inr s' \<longleftrightarrow>
     accepts \<and> amount \<le> balance s \<and> s' = s\<lparr>balance := balance s - amount\<rparr>"
  by (auto simp: send_value_def success_simps)

lemma run_append: "run (cs @ ds) s = andThen (run cs s) (run ds)"
proof (induction cs arbitrary: s)
  case Nil
  show ?case by simp
next
  case (Cons c cs)
  obtain now k where c: "c = (now, k)" by (cases c)
  show ?case
  proof (cases "exec now k s")
    case (Inl e)
    then show ?thesis by (simp add: c)
  next
    case (Inr s1)
    then show ?thesis by (simp add: c Cons.IH)
  qed
qed

lemma run_preserves_reachable: "reachable s \<Longrightarrow> run cs s = Inr s' \<Longrightarrow> reachable s'"
proof (induction cs arbitrary: s)
  case Nil
  then show ?case by simp
next
  case (Cons c cs)
  obtain now k where c: "c = (now, k)" by (cases c)
  from Cons.prems(2) obtain s1 where s1: "exec now k s = Inr s1" and rest: "run cs s1 = Inr s'"
    by (auto simp: c andThen_eq_Inr)
  have "reachable s1" using Cons.prems(1) s1 by (rule reachable_step)
  then show ?case using rest by (rule Cons.IH)
qed

lemma run_reachable: "run cs init = Inr s \<Longrightarrow> reachable s"
  using reachable_init by (rule run_preserves_reachable)

subsection \<open>The histories evaluated\<close>

lemma run_history_borrowed: "run history_borrowed init = Inr st_borrowed"
  by (simp add: history_borrowed_def st_borrowed_def eval_defs)

lemma run_history_borrowed70: "run history_borrowed70 init = Inr st_borrowed70"
  by (simp add: history_borrowed70_def st_borrowed70_def eval_defs)

lemma run_history_supplied: "run history_supplied init = Inr st_supplied"
  by (simp add: history_supplied_def st_supplied_def eval_defs)

lemma run_history_small: "run history_small init = Inr st_small"
  by (simp add: history_small_def st_small_def eval_defs)

lemma reachable_st_borrowed: "reachable st_borrowed"
  using run_history_borrowed by (rule run_reachable)

lemma reachable_st_small: "reachable st_small"
  using run_history_small by (rule run_reachable)

section \<open>What the modifiers and the bodies leave unchanged\<close>

lemma andThenE:
  assumes "andThen m f = Inr y"
  obtains x where "m = Inr x" and "f x = Inr y"
  using assms by (auto simp: andThen_eq_Inr)

lemma accrueInterest_frame:
  assumes "accrueInterest now s = Inr s'"
  shows "accounts s' = accounts s \<and> balance s' = balance s
    \<and> borrowIndex s \<le> borrowIndex s' \<and> exchangeRate s \<le> exchangeRate s'
    \<and> lastUpdateTime s' = now \<and> lastUpdateTime s \<le> now"
  using assms unfolding accrueInterest_def
  apply (erule_tac andThenE)
  apply (simp only: checked_sub_eq_Inr)
  apply (split if_splits)
   apply fastforce
  apply (elim andThenE)
  apply (clarsimp simp: checked_add_eq_Inr andThen_eq_Inr split: if_splits)
  done

lemma updateUserRewards_frame:
  assumes "updateUserRewards now user s = Inr s'"
  shows "s' = s\<lparr>accounts := accounts s'\<rparr> \<and> (\<forall>u. same_position (accounts s' u) (accounts s u))
     \<and> (\<forall>u. u \<noteq> user \<longrightarrow> accounts s' u = accounts s u)
     \<and> lastRewardUpdate (accounts s' user) = now"
proof (cases "supplyBalance (accounts s user) = 0")
  case True
  with assms have "s' = s\<lparr>accounts := (accounts s)(user := (accounts s user)\<lparr>lastRewardUpdate := now\<rparr>)\<rparr>"
    by (simp add: updateUserRewards_def Let_def)
  then show ?thesis by (auto simp: same_position_def)
next
  case False
  with assms obtain timeElapsed where te: "checked_sub now (lastRewardUpdate (accounts s user)) = Inr timeElapsed"
    and rest: "timeElapsed = 0 \<and> s' = s \<or> timeElapsed \<noteq> 0 \<and> (\<exists>accrued. s' = s\<lparr>accounts := (accounts s)(user := (accounts s user)\<lparr>accruedRewards := accrued,
                                                          lastRewardUpdate := now\<rparr>)\<rparr>)"
    unfolding updateUserRewards_def Let_def
    apply (simp only: if_False)
    apply (erule andThenE)
    apply (split if_splits)
     apply fastforce
    apply (elim andThenE)
    apply fastforce
    done
  from rest show ?thesis
  proof (elim disjE conjE exE)
    assume z: "timeElapsed = 0" and "s' = s"
    with te have "lastRewardUpdate (accounts s user) = now"
      by (simp add: checked_sub_eq_Inr)
    with \<open>s' = s\<close> show ?thesis
      by (simp add: same_position_def)
  next
    fix accrued
    assume "s' = s\<lparr>accounts := (accounts s)(user := (accounts s user)\<lparr>accruedRewards := accrued,
                                                          lastRewardUpdate := now\<rparr>)\<rparr>"
    then show ?thesis by (auto simp: same_position_def)
  qed
qed

lemma rebased_pos: "0 < b \<Longrightarrow> 0 < i \<Longrightarrow> i \<le> bi \<Longrightarrow> 0 < b * bi div (i::nat)"
proof -
  assume b: "0 < b" and i: "0 < i" and le: "i \<le> bi"
  have "bi \<le> b * bi" using b by (cases b) simp_all
  with le have "i \<le> b * bi" by (rule order_trans)
  with i show ?thesis by (simp add: div_greater_zero_iff)
qed

lemma borrow_inv_accrueInterest:
  "borrow_inv s \<Longrightarrow> accrueInterest now s = Inr s' \<Longrightarrow> borrow_inv s'"
proof -
  assume i: "borrow_inv s" and a: "accrueInterest now s = Inr s'"
  from accrueInterest_frame[OF a]
  have acc: "accounts s' = accounts s" and le: "borrowIndex s \<le> borrowIndex s'" by simp_all
  have "0 < borrowIndex s'" using i le by (simp add: borrow_inv_def)
  moreover have "account_ok (borrowIndex s') (accounts s' u)" for u
  proof -
    from i have "account_ok (borrowIndex s) (accounts s u)" by (simp add: borrow_inv_def)
    with le show ?thesis by (simp add: account_ok_def acc)
  qed
  ultimately show "borrow_inv s'" by (simp add: borrow_inv_def)
qed

lemma borrow_inv_updateUserRewards:
  assumes "borrow_inv s" and "updateUserRewards now user s = Inr s'"
  shows "borrow_inv s'"
proof -
  from updateUserRewards_frame[OF assms(2)]
  have g: "s' = s\<lparr>accounts := accounts s'\<rparr>" and p: "\<And>u. same_position (accounts s' u) (accounts s u)"
    by simp_all
  from g have "borrowIndex s' = borrowIndex (s\<lparr>accounts := accounts s'\<rparr>)" by simp
  then have bi: "borrowIndex s' = borrowIndex s" by simp
  show ?thesis using assms(1) p
    unfolding borrow_inv_def account_ok_def bi same_position_def by metis
qed

lemma borrow_inv_receive_value: "borrow_inv (receive_value v s) = borrow_inv s"
  by (simp add: borrow_inv_def receive_value_def)

lemma borrow_inv_supplyNative_body:
  "borrow_inv s \<Longrightarrow> supplyNative_body sender amount s = Inr s' \<Longrightarrow> borrow_inv s'"
  unfolding supplyNative_body_def Let_def
  apply (elim andThenE)
  apply (clarsimp simp: borrow_inv_def account_ok_def)
  done

lemma borrow_inv_withdraw_body:
  "borrow_inv s \<Longrightarrow> withdraw_body sender amount accepts s = Inr s' \<Longrightarrow> borrow_inv s'"
  unfolding withdraw_body_def Let_def
  apply (elim andThenE)
  apply (clarsimp simp: send_value_eq_Inr borrow_inv_def account_ok_def)
  done

lemma borrow_inv_borrow_body:
  "borrow_inv s \<Longrightarrow> borrow_body sender amount accepts s = Inr s' \<Longrightarrow> borrow_inv s'"
  unfolding borrow_body_def Let_def
  apply (elim andThenE)
  apply (clarsimp simp: send_value_eq_Inr revert_if_eq_Inr borrow_inv_def account_ok_def)
  done

lemma borrow_inv_repay_body:
  "borrow_inv s \<Longrightarrow> repay_body sender amount s = Inr s' \<Longrightarrow> borrow_inv s'"
  unfolding repay_body_def Let_def
  apply (elim andThenE)
  apply (clarsimp simp: borrow_inv_def account_ok_def mul_div_eq_Inr checked_sub_eq_Inr split: if_splits)
  done

lemma borrow_inv_claimRewards_body:
  "borrow_inv s \<Longrightarrow> claimRewards_body now sender accepts s = Inr s' \<Longrightarrow> borrow_inv s'"
  unfolding claimRewards_body_def Let_def
  apply (elim andThenE)
  apply (clarsimp simp: send_value_eq_Inr borrow_inv_def account_ok_def)
  done

lemma borrow_inv_liquidate_body:
  "borrow_inv s \<Longrightarrow> liquidate_body sender v borrower accepts s = Inr s' \<Longrightarrow> borrow_inv s'"
  unfolding liquidate_body_def Let_def
  apply (elim andThenE)
  apply (clarsimp simp: send_value_eq_Inr require_eq_Inr borrow_inv_def account_ok_def)
  done


lemma setCollateralEnabled_body_disable:
  assumes inv: "borrow_inv s"
    and ok: "setCollateralEnabled_body sender False s = Inr s'"
  shows "borrowBalance (accounts s sender) = 0"
proof (rule ccontr)
  assume "borrowBalance (accounts s sender) \<noteq> 0"
  then have pos: "0 < borrowBalance (accounts s sender)" by simp
  define idx where "idx = (if acc_borrowIndex (accounts s sender) = 0 then borrowIndex s
                           else acc_borrowIndex (accounts s sender))"
  from inv have bi: "0 < borrowIndex s"
    and "account_ok (borrowIndex s) (accounts s sender)"
    by (simp_all add: borrow_inv_def)
  then have idx: "0 < idx" "idx \<le> borrowIndex s"
    by (simp_all add: idx_def account_ok_def)
  from ok pos have "borrowBalance (accounts s sender) * borrowIndex s div idx = 0"
    unfolding setCollateralEnabled_body_def Let_def idx_def[symmetric]
    by (auto simp: andThen_eq_Inr mul_div_eq_Inr require_eq_Inr)
  moreover have "0 < borrowBalance (accounts s sender) * borrowIndex s div idx"
    using pos idx by (rule rebased_pos)
  ultimately show False by simp
qed

lemma borrow_inv_setCollateralEnabled_body:
  assumes inv: "borrow_inv s"
    and ok: "setCollateralEnabled_body sender enabled s = Inr s'"
  shows "borrow_inv s'"
proof -
  have z: "enabled \<or> borrowBalance (accounts s sender) = 0"
    using inv ok by (cases enabled) (auto dest: setCollateralEnabled_body_disable)
  from ok have s': "s' = s\<lparr>accounts := (accounts s)(sender := (accounts s sender)\<lparr>collateralEnabled := enabled\<rparr>)\<rparr>"
    unfolding setCollateralEnabled_body_def Let_def by (auto simp: andThen_eq_Inr)
  show ?thesis using inv z
    by (auto simp: s' borrow_inv_def account_ok_def)
qed

lemma supplyNative_eq_Inr:
  "supplyNative now sender v s = Inr s' \<longleftrightarrow>
     (\<exists>s1 s2. accrueInterest now (receive_value v s) = Inr s1
        \<and> updateUserRewards now sender s1 = Inr s2 \<and> supplyNative_body sender v s2 = Inr s')"
  by (simp add: supplyNative_def andThen_eq_Inr)

lemma withdraw_eq_Inr:
  "withdraw now sender amount accepts s = Inr s' \<longleftrightarrow>
     (\<exists>s1 s2. accrueInterest now s = Inr s1
        \<and> updateUserRewards now sender s1 = Inr s2
        \<and> withdraw_body sender amount accepts s2 = Inr s')"
  by (simp add: withdraw_def andThen_eq_Inr)

lemma borrow_eq_Inr:
  "borrow now sender amount accepts s = Inr s' \<longleftrightarrow>
     (\<exists>s1 s2. accrueInterest now s = Inr s1
        \<and> updateUserRewards now sender s1 = Inr s2
        \<and> borrow_body sender amount accepts s2 = Inr s')"
  by (simp add: borrow_def andThen_eq_Inr)

lemma repay_eq_Inr:
  "repay now sender v s = Inr s' \<longleftrightarrow>
     (\<exists>s1 s2. accrueInterest now (receive_value v s) = Inr s1
        \<and> updateUserRewards now sender s1 = Inr s2 \<and> repay_body sender v s2 = Inr s')"
  by (simp add: repay_def andThen_eq_Inr)

lemma setCollateralEnabled_eq_Inr:
  "setCollateralEnabled now sender enabled s = Inr s' \<longleftrightarrow>
     (\<exists>s1 s2. accrueInterest now s = Inr s1
        \<and> updateUserRewards now sender s1 = Inr s2
        \<and> setCollateralEnabled_body sender enabled s2 = Inr s')"
  by (simp add: setCollateralEnabled_def andThen_eq_Inr)

lemma claimRewards_eq_Inr:
  "claimRewards now sender accepts s = Inr s' \<longleftrightarrow>
     (\<exists>s1 s2. accrueInterest now s = Inr s1
        \<and> updateUserRewards now sender s1 = Inr s2
        \<and> claimRewards_body now sender accepts s2 = Inr s')"
  by (simp add: claimRewards_def andThen_eq_Inr)

lemma liquidate_eq_Inr:
  "liquidate now sender v borrower accepts s = Inr s' \<longleftrightarrow>
     (\<exists>s1. accrueInterest now (receive_value v s) = Inr s1
        \<and> liquidate_body sender v borrower accepts s1 = Inr s')"
  by (simp add: liquidate_def andThen_eq_Inr)

lemma borrow_inv_modifiers:
  assumes "borrow_inv s" and "accrueInterest now s = Inr s1"
    and "updateUserRewards now user s1 = Inr s2"
  shows "borrow_inv s2"
  using assms borrow_inv_accrueInterest borrow_inv_updateUserRewards by blast

lemma borrow_inv_exec:
  assumes inv: "borrow_inv s" and ok: "exec now c s = Inr s'"
  shows "borrow_inv s'"
proof (cases c)
  case (SupplyNative sender v)
  with ok obtain s1 s2 where "accrueInterest now (receive_value v s) = Inr s1"
    "updateUserRewards now sender s1 = Inr s2" "supplyNative_body sender v s2 = Inr s'"
    by (auto simp: supplyNative_eq_Inr)
  moreover have "borrow_inv (receive_value v s)" using inv by (simp add: borrow_inv_receive_value)
  ultimately show ?thesis
    using borrow_inv_modifiers borrow_inv_supplyNative_body by blast
next
  case (Withdraw sender amount accepts)
  with ok obtain s1 s2 where "accrueInterest now s = Inr s1"
    "updateUserRewards now sender s1 = Inr s2" "withdraw_body sender amount accepts s2 = Inr s'"
    by (auto simp: withdraw_eq_Inr)
  then show ?thesis
    using inv borrow_inv_modifiers borrow_inv_withdraw_body by blast
next
  case (Borrow sender amount accepts)
  with ok obtain s1 s2 where "accrueInterest now s = Inr s1"
    "updateUserRewards now sender s1 = Inr s2" "borrow_body sender amount accepts s2 = Inr s'"
    by (auto simp: borrow_eq_Inr)
  then show ?thesis
    using inv borrow_inv_modifiers borrow_inv_borrow_body by blast
next
  case (Repay sender v)
  with ok obtain s1 s2 where "accrueInterest now (receive_value v s) = Inr s1"
    "updateUserRewards now sender s1 = Inr s2" "repay_body sender v s2 = Inr s'"
    by (auto simp: repay_eq_Inr)
  moreover have "borrow_inv (receive_value v s)" using inv by (simp add: borrow_inv_receive_value)
  ultimately show ?thesis
    using borrow_inv_modifiers borrow_inv_repay_body by blast
next
  case (SetCollateralEnabled sender enabled)
  with ok obtain s1 s2 where "accrueInterest now s = Inr s1"
    "updateUserRewards now sender s1 = Inr s2"
    "setCollateralEnabled_body sender enabled s2 = Inr s'"
    by (auto simp: setCollateralEnabled_eq_Inr)
  then show ?thesis
    using inv borrow_inv_modifiers borrow_inv_setCollateralEnabled_body by blast
next
  case (ClaimRewards sender accepts)
  with ok obtain s1 s2 where "accrueInterest now s = Inr s1"
    "updateUserRewards now sender s1 = Inr s2"
    "claimRewards_body now sender accepts s2 = Inr s'"
    by (auto simp: claimRewards_eq_Inr)
  then show ?thesis
    using inv borrow_inv_modifiers borrow_inv_claimRewards_body by blast
next
  case (Liquidate sender v borrower accepts)
  with ok obtain s1 where "accrueInterest now (receive_value v s) = Inr s1"
    "liquidate_body sender v borrower accepts s1 = Inr s'"
    by (auto simp: liquidate_eq_Inr)
  moreover have "borrow_inv (receive_value v s)" using inv by (simp add: borrow_inv_receive_value)
  ultimately show ?thesis
    using borrow_inv_accrueInterest borrow_inv_liquidate_body by blast
next
  case (Receive v)
  with ok inv show ?thesis
    by (auto simp: borrow_inv_receive_value)
qed

lemma borrow_inv_init: "borrow_inv init"
  by (simp add: borrow_inv_def account_ok_def init_def empty_account_def)

lemma reachable_borrow_inv: "reachable s \<Longrightarrow> borrow_inv s"
  by (induction rule: reachable.induct) (auto intro: borrow_inv_init borrow_inv_exec)

section \<open>How calls fail\<close>

lemma checked_add_neq_Require [simp]: "checked_add a b \<noteq> Inl (Require m)"
  by (simp add: checked_add_def)
lemma checked_sub_neq_Require [simp]: "checked_sub a b \<noteq> Inl (Require m)"
  by (simp add: checked_sub_def)
lemma checked_mul_neq_Require [simp]: "checked_mul a b \<noteq> Inl (Require m)"
  by (simp add: checked_mul_def)
lemma checked_div_neq_Require [simp]: "checked_div a b \<noteq> Inl (Require m)"
  by (simp add: checked_div_def)
lemma mul_div_neq_Require [simp]: "mul_div a b c \<noteq> Inl (Require m)"
  by (simp add: mul_div_def andThen_eq_Inl)
lemma require_eq_Inl: "require c msg = Inl e \<longleftrightarrow> \<not> c \<and> e = Require msg"
  by (auto simp: require_def)
lemma send_value_eq_Inl:
  "send_value accepts amount msg s = Inl e \<longleftrightarrow> \<not> (accepts \<and> amount \<le> balance s) \<and> e = Require msg"
  by (auto simp: send_value_def andThen_eq_Inl require_eq_Inl require_eq_Inr)

lemma checked_add_eq_Inl: "checked_add a b = Inl e \<longleftrightarrow> MAX_UINT256 < a + b \<and> e = Overflow"
  by (auto simp: checked_add_def)
lemma checked_sub_eq_Inl: "checked_sub a b = Inl e \<longleftrightarrow> a < b \<and> e = Underflow"
  by (auto simp: checked_sub_def)
lemma checked_mul_eq_Inl: "checked_mul a b = Inl e \<longleftrightarrow> MAX_UINT256 < a * b \<and> e = Overflow"
  by (auto simp: checked_mul_def)
lemma checked_div_eq_Inl: "checked_div a b = Inl e \<longleftrightarrow> b = 0 \<and> e = DivByZero"
  by (auto simp: checked_div_def)
lemma mul_div_eq_Inl:
  "mul_div a b c = Inl e \<longleftrightarrow>
     MAX_UINT256 < a * b \<and> e = Overflow \<or> a * b \<le> MAX_UINT256 \<and> c = 0 \<and> e = DivByZero"
  by (auto simp: mul_div_def andThen_eq_Inl checked_mul_eq_Inl checked_div_eq_Inl checked_mul_eq_Inr)
lemma revert_if_eq_Inl: "revert_if c e = Inl e' \<longleftrightarrow> c \<and> e' = e"
  by (auto simp: revert_if_def)

lemmas failure_simps = andThen_eq_Inl checked_add_eq_Inl checked_sub_eq_Inl checked_mul_eq_Inl
  checked_div_eq_Inl mul_div_eq_Inl revert_if_eq_Inl require_eq_Inl send_value_eq_Inl

lemma withdraw_body_eq_Inl:
  assumes "withdraw_body sender amount accepts s = Inl e"
    and "0 < borrowIndex s" and "exchangeRate s \<noteq> 0"
  shows "e = Overflow \<or> e = CollateralDisabled \<or> e = InvalidAmount \<and> amount = 0
    \<or> e = InsufficientBalance
        \<and> supplyBalance (accounts s sender) * exchangeRate s div e18 < amount
    \<or> e = Underflow
        \<and> (supplyBalance (accounts s sender) < amount * e18 div exchangeRate s
            \<or> totalSupply s < amount)
    \<or> e = Require ''Native transfer failed'' \<and> \<not> (accepts \<and> amount \<le> balance s)"
  using assms unfolding withdraw_body_def Let_def
  by (auto simp: failure_simps success_simps split: if_splits)


section \<open>The totals after each body\<close>

lemma updateUserRewards_totals:
  assumes "updateUserRewards now user s = Inr s'"
  shows "totalSupply s' = totalSupply s" and "totalBorrow s' = totalBorrow s"
    and "balance s' = balance s" and "exchangeRate s' = exchangeRate s"
    and "borrowIndex s' = borrowIndex s" and "lastUpdateTime s' = lastUpdateTime s"
proof -
  from updateUserRewards_frame[OF assms] have g: "s' = s\<lparr>accounts := accounts s'\<rparr>" by simp
  have "totalSupply s' = totalSupply (s\<lparr>accounts := accounts s'\<rparr>)" using g by simp
  then show "totalSupply s' = totalSupply s" by simp
  have "totalBorrow s' = totalBorrow (s\<lparr>accounts := accounts s'\<rparr>)" using g by simp
  then show "totalBorrow s' = totalBorrow s" by simp
  have "balance s' = balance (s\<lparr>accounts := accounts s'\<rparr>)" using g by simp
  then show "balance s' = balance s" by simp
  have "exchangeRate s' = exchangeRate (s\<lparr>accounts := accounts s'\<rparr>)" using g by simp
  then show "exchangeRate s' = exchangeRate s" by simp
  have "borrowIndex s' = borrowIndex (s\<lparr>accounts := accounts s'\<rparr>)" using g by simp
  then show "borrowIndex s' = borrowIndex s" by simp
  have "lastUpdateTime s' = lastUpdateTime (s\<lparr>accounts := accounts s'\<rparr>)" using g by simp
  then show "lastUpdateTime s' = lastUpdateTime s" by simp
qed

lemma supplyNative_body_totals:
  "supplyNative_body sender amount s = Inr s' \<Longrightarrow>
     totalBorrow s' = totalBorrow s \<and> totalSupply s' = totalSupply s + amount"
  unfolding supplyNative_body_def Let_def
  by (elim andThenE) (clarsimp simp: checked_add_eq_Inr)

lemma borrow_body_totals:
  "borrow_body sender amount accepts s = Inr s' \<Longrightarrow>
     totalBorrow s' = totalBorrow s + amount \<and> totalSupply s' = totalSupply s
     \<and> totalBorrow s' \<le> totalSupply s'"
  unfolding borrow_body_def Let_def
  by (elim andThenE) (clarsimp simp: checked_add_eq_Inr send_value_eq_Inr revert_if_eq_Inr)

lemma repay_body_totals:
  "repay_body sender amount s = Inr s' \<Longrightarrow>
     totalBorrow s' \<le> totalBorrow s \<and> totalSupply s' = totalSupply s"
  unfolding repay_body_def Let_def
  by (elim andThenE) (clarsimp simp: checked_sub_eq_Inr)

lemma setCollateralEnabled_body_totals:
  "setCollateralEnabled_body sender enabled s = Inr s' \<Longrightarrow>
     totalBorrow s' = totalBorrow s \<and> totalSupply s' = totalSupply s"
  unfolding setCollateralEnabled_body_def Let_def
  by (elim andThenE) clarsimp

lemma claimRewards_body_totals:
  "claimRewards_body now sender accepts s = Inr s' \<Longrightarrow>
     totalBorrow s' = totalBorrow s \<and> totalSupply s' = totalSupply s"
  unfolding claimRewards_body_def Let_def
  by (elim andThenE) (clarsimp simp: send_value_eq_Inr)

section \<open>Same-timestamp calls and the scaling of a supply\<close>

lemma accrueInterest_idle: "lastUpdateTime s = now \<Longrightarrow> accrueInterest now s = Inr s"
  by (simp add: accrueInterest_def checked_sub_def)

lemma updateUserRewards_idle:
  "lastRewardUpdate (accounts s user) = now \<Longrightarrow> updateUserRewards now user s = Inr s"
  by (auto simp: updateUserRewards_def Let_def checked_sub_def)

lemma supplyNative_body_eq_Inr:
  "supplyNative_body sender amount s = Inr s' \<longleftrightarrow>
     amount \<noteq> 0 \<and> amount * e18 \<le> MAX_UINT256 \<and> exchangeRate s \<noteq> 0
     \<and> supplyBalance (accounts s sender) + amount * e18 div exchangeRate s \<le> MAX_UINT256
     \<and> totalSupply s + amount \<le> MAX_UINT256
     \<and> s' = s\<lparr>accounts := (accounts s)(sender := (accounts s sender)
                  \<lparr>supplyBalance := supplyBalance (accounts s sender)
                      + amount * e18 div exchangeRate s,
                   acc_supplyIndex := supplyIndex s\<rparr>),
               totalSupply := totalSupply s + amount\<rparr>"
  by (auto simp: supplyNative_body_def Let_def success_simps)

lemma credited_covers_amount:
  assumes er: "0 < er"
  shows "x \<le> (sb + x * e18 div er) * er div e18 \<longleftrightarrow> 0 < sb \<or> er dvd x * e18"
proof -
  define k where "k = x * e18 div er"
  define r where "r = x * e18 mod er"
  have split: "x * e18 = k * er + r" by (simp add: k_def r_def)
  have r: "r < er" using er by (simp add: r_def)
  have iff: "x \<le> (sb + k) * er div e18 \<longleftrightarrow> x * e18 \<le> (sb + k) * er"
    by (simp add: less_eq_div_iff_mult_less_eq)
  have dv: "er dvd x * e18 \<longleftrightarrow> r = 0" by (simp add: r_def dvd_eq_mod_eq_0)
  show ?thesis
  proof (cases "0 < sb")
    case True
    then have e1: "er \<le> sb * er" by (cases sb) simp_all
    have "r \<le> sb * er" using r e1 by linarith
    then have "x * e18 \<le> (sb + k) * er" using split by (simp add: add_mult_distrib)
    with True show ?thesis using iff by (simp add: k_def)
  next
    case False
    then have "sb = 0" by simp
    then have "x * e18 \<le> (sb + k) * er \<longleftrightarrow> r = 0" by (simp add: split)
    with False show ?thesis using iff dv by (simp add: k_def)
  qed
qed

lemma scaled_amount_within_balance:
  assumes "amount \<le> sb * er div e18" and "0 < er"
  shows "amount * e18 div er \<le> sb"
proof -
  from assms(1) have "amount * e18 \<le> sb * er"
    by (simp add: less_eq_div_iff_mult_less_eq)
  then have "amount * e18 div er \<le> sb * er div er" by (rule div_le_mono)
  with assms(2) show ?thesis by simp
qed

section \<open>QieLend never records a debt\<close>

text \<open>
  \<open>borrow\<close>, \<open>repay\<close> and \<open>liquidate\<close> of \<open>QieLend\<close> divide by the stored index of the account
  before they write it, and the index starts at 0: none of the three ever succeeds, and
  no other function writes \<open>borrowBalance\<close> or the stored index.
\<close>

lemma QieLend_accrueInterest_accounts:
  assumes "QieLend_accrueInterest now s = Inr s'"
  shows "accounts s' = accounts s"
  using assms unfolding QieLend_accrueInterest_def
  apply (erule_tac andThenE)
  apply (split if_splits)
   apply fastforce
  apply (elim andThenE)
  apply clarsimp
  done

lemma QieLend_updateUserRewards_position:
  assumes "QieLend_updateUserRewards now user s = Inr s'"
  shows "same_position (accounts s' u) (accounts s u)"
proof (cases "supplyBalance (accounts s user) = 0")
  case True
  with assms have "s' = s\<lparr>accounts := (accounts s)(user := (accounts s user)\<lparr>lastRewardUpdate := now\<rparr>)\<rparr>"
    by (simp add: QieLend_updateUserRewards_def Let_def)
  then show ?thesis by (simp add: same_position_def)
next
  case False
  with assms have "s' = s \<or> (\<exists>accrued. s' = s\<lparr>accounts := (accounts s)(user := (accounts s user)
      \<lparr>accruedRewards := accrued, lastRewardUpdate := now\<rparr>)\<rparr>)"
    unfolding QieLend_updateUserRewards_def Let_def
    apply (simp only: if_False)
    apply (erule andThenE)
    apply (split if_splits)
     apply fastforce
    apply (elim andThenE)
    apply fastforce
    done
  then show ?thesis by (cases "u = user") (auto simp: same_position_def)
qed

lemma no_debt_modifiers:
  assumes "no_debt s" and "QieLend_accrueInterest now s = Inr s1"
    and "QieLend_updateUserRewards now user s1 = Inr s2"
  shows "no_debt s2"
  using assms(1) QieLend_accrueInterest_accounts[OF assms(2)]
    QieLend_updateUserRewards_position[OF assms(3)]
  by (simp add: no_debt_def same_position_def)

lemma no_debt_supply_body:
  "no_debt s \<Longrightarrow> QieLend_supply_body sender amount pays s = Inr s' \<Longrightarrow> no_debt s'"
  unfolding QieLend_supply_body_def take_tokens_def Let_def
  by (elim andThenE) (clarsimp simp: no_debt_def)

lemma no_debt_withdraw_body:
  "no_debt s \<Longrightarrow> QieLend_withdraw_body sender amount accepts s = Inr s' \<Longrightarrow> no_debt s'"
  unfolding QieLend_withdraw_body_def Let_def
  by (elim andThenE) (clarsimp simp: send_value_eq_Inr no_debt_def)

lemma no_debt_setCollateralEnabled_body:
  "no_debt s \<Longrightarrow> QieLend_setCollateralEnabled_body sender enabled s = Inr s' \<Longrightarrow> no_debt s'"
  unfolding QieLend_setCollateralEnabled_body_def Let_def
  by (elim andThenE) (clarsimp simp: no_debt_def)

lemma no_debt_claimRewards_body:
  "no_debt s \<Longrightarrow> QieLend_claimRewards_body now sender accepts s = Inr s' \<Longrightarrow> no_debt s'"
  unfolding QieLend_claimRewards_body_def Let_def
  by (elim andThenE) (clarsimp simp: send_value_eq_Inr no_debt_def)

lemma QieLend_borrow_body_fails:
  "acc_borrowIndex (accounts s sender) = 0 \<Longrightarrow> QieLend_borrow_body sender amount accepts s \<noteq> Inr s'"
  by (simp add: QieLend_borrow_body_def Let_def success_simps)

lemma QieLend_repay_body_fails:
  "acc_borrowIndex (accounts s sender) = 0 \<Longrightarrow> QieLend_repay_body sender amount pays s \<noteq> Inr s'"
  by (simp add: QieLend_repay_body_def Let_def success_simps)

lemma QieLend_liquidate_body_fails:
  "acc_borrowIndex (accounts s borrower) = 0 \<Longrightarrow>
     QieLend_liquidate_body sender borrower repayAmount pays accepts s \<noteq> Inr s'"
  by (simp add: QieLend_liquidate_body_def Let_def success_simps)

lemma no_debt_exec:
  assumes inv: "no_debt s" and ok: "QieLend_exec now c s = Inr s'"
  shows "no_debt s'"
proof (cases c)
  case (QieLend_Supply sender amount pays)
  with ok obtain s1 s2 where "QieLend_accrueInterest now s = Inr s1"
    "QieLend_updateUserRewards now sender s1 = Inr s2"
    "QieLend_supply_body sender amount pays s2 = Inr s'"
    by (auto simp: QieLend_supply_def andThen_eq_Inr)
  then show ?thesis using inv no_debt_modifiers no_debt_supply_body by blast
next
  case (QieLend_Withdraw sender amount accepts)
  with ok obtain s1 s2 where "QieLend_accrueInterest now s = Inr s1"
    "QieLend_updateUserRewards now sender s1 = Inr s2"
    "QieLend_withdraw_body sender amount accepts s2 = Inr s'"
    by (auto simp: QieLend_withdraw_def andThen_eq_Inr)
  then show ?thesis using inv no_debt_modifiers no_debt_withdraw_body by blast
next
  case (QieLend_Borrow sender amount accepts)
  with ok obtain s1 s2 where m: "QieLend_accrueInterest now s = Inr s1"
    "QieLend_updateUserRewards now sender s1 = Inr s2"
    and b: "QieLend_borrow_body sender amount accepts s2 = Inr s'"
    by (auto simp: QieLend_borrow_def andThen_eq_Inr)
  from no_debt_modifiers[OF inv m] have "acc_borrowIndex (accounts s2 sender) = 0"
    by (simp add: no_debt_def)
  with b show ?thesis by (simp add: QieLend_borrow_body_fails)
next
  case (QieLend_Repay sender amount pays)
  with ok obtain s1 s2 where m: "QieLend_accrueInterest now s = Inr s1"
    "QieLend_updateUserRewards now sender s1 = Inr s2"
    and b: "QieLend_repay_body sender amount pays s2 = Inr s'"
    by (auto simp: QieLend_repay_def andThen_eq_Inr)
  from no_debt_modifiers[OF inv m] have "acc_borrowIndex (accounts s2 sender) = 0"
    by (simp add: no_debt_def)
  with b show ?thesis by (simp add: QieLend_repay_body_fails)
next
  case (QieLend_SetCollateralEnabled sender enabled)
  with ok obtain s1 s2 where "QieLend_accrueInterest now s = Inr s1"
    "QieLend_updateUserRewards now sender s1 = Inr s2"
    "QieLend_setCollateralEnabled_body sender enabled s2 = Inr s'"
    by (auto simp: QieLend_setCollateralEnabled_def andThen_eq_Inr)
  then show ?thesis using inv no_debt_modifiers no_debt_setCollateralEnabled_body by blast
next
  case (QieLend_ClaimRewards sender accepts)
  with ok obtain s1 s2 where "QieLend_accrueInterest now s = Inr s1"
    "QieLend_updateUserRewards now sender s1 = Inr s2"
    "QieLend_claimRewards_body now sender accepts s2 = Inr s'"
    by (auto simp: QieLend_claimRewards_def andThen_eq_Inr)
  then show ?thesis using inv no_debt_modifiers no_debt_claimRewards_body by blast
next
  case (QieLend_Liquidate sender borrower repayAmount pays accepts)
  with ok obtain s1 where m: "QieLend_accrueInterest now s = Inr s1"
    and b: "QieLend_liquidate_body sender borrower repayAmount pays accepts s1 = Inr s'"
    by (auto simp: QieLend_liquidate_def andThen_eq_Inr)
  from inv QieLend_accrueInterest_accounts[OF m]
  have "acc_borrowIndex (accounts s1 borrower) = 0" by (simp add: no_debt_def)
  with b show ?thesis by (simp add: QieLend_liquidate_body_fails)
next
  case (QieLend_TokensIn v)
  with ok inv show ?thesis by (auto simp: no_debt_def receive_value_def)
qed

lemma QieLend_reachable_no_debt: "QieLend_reachable s \<Longrightarrow> no_debt s"
proof (induction rule: QieLend_reachable.induct)
  case (QieLend_reachable_init deployed)
  show ?case by (simp add: no_debt_def QieLend_init_def init_def empty_account_def)
next
  case (QieLend_reachable_step s now c s')
  then show ?case by (blast intro: no_debt_exec)
qed

section \<open>Borrowing again after interest has accrued\<close>

text \<open>
  Claim C1. A borrow of \<open>a\<close> by an account that already owes should leave its real borrow
  balance at the balance before the call plus \<open>a\<close>, so that accrued interest is kept.
  The contract does not do so. In \<open>st_borrowed\<close> account 1 has borrowed 500 tokens at index
  \<open>1e18\<close>. One year later the accrual of the call raises the index to
  \<open>1069999999972768000\<close> and the account owes \<open>534999999986384000000\<close>. It borrows one more
  unit: \<open>borrow\<close> adds \<open>1 * 1e18 / borrowIndex = 0\<close> to the stored balance, which was never
  rebased, and moves the account's index to the current one. The account now owes
  \<open>500000000000000000000\<close>: the interest of the year is gone, while \<open>totalBorrow\<close> keeps it.
\<close>

theorem borrow_erases_accrued_interest:
  "run history_borrowed init = Inr st_borrowed
   \<and> accrueInterest 31537000 st_borrowed = Inr st_accrued
   \<and> getBorrowBalance st_accrued 1 = Inr 534999999986384000000
   \<and> borrow 31537000 1 1 True st_borrowed = Inr st_reborrowed
   \<and> getBorrowBalance st_reborrowed 1 = Inr 500000000000000000000
   \<and> totalBorrow st_reborrowed = 534999999986384000001"
proof -
  have "accrueInterest 31537000 st_borrowed = Inr st_accrued"
    by (simp add: st_borrowed_def st_accrued_def eval_defs)
  moreover have "getBorrowBalance st_accrued 1 = Inr 534999999986384000000"
    by (simp add: st_accrued_def eval_defs)
  moreover have "borrow 31537000 1 1 True st_borrowed = Inr st_reborrowed"
    by (simp add: st_borrowed_def st_reborrowed_def eval_defs)
  moreover have "getBorrowBalance st_reborrowed 1 = Inr 500000000000000000000"
    by (simp add: st_reborrowed_def eval_defs)
  moreover have "totalBorrow st_reborrowed = 534999999986384000001"
    by (simp add: st_reborrowed_def)
  ultimately show ?thesis
    using run_history_borrowed by simp
qed

section \<open>The reward view against the reward sync\<close>

text \<open>
  Claim C5. \<open>getAccruedRewards(user)\<close> should return the value that \<open>accruedRewards\<close> holds
  after \<open>_updateUserRewards(user)\<close> at the same timestamp. It does not. In \<open>st_borrowed\<close>,
  one second after the last sync of account 1, the sync adds \<open>1331811263000\<close>
  (balance times the floored per-second rate, divided by \<open>1e18\<close>), the view returns
  \<open>1331811263318112633181126331811\<close>: it scales the APY to \<open>1e18\<close>, multiplies by the balance
  and divides by the seconds of a year, and never divides by \<open>1e18\<close>.
\<close>

theorem view_rewards_differ_from_synced_rewards:
  "getAccruedRewards 1001 st_borrowed 1 = Inr 1331811263318112633181126331811
   \<and> updateUserRewards 1001 1 st_borrowed = Inr st_synced
   \<and> accruedRewards (accounts st_synced 1) = 1331811263000"
proof -
  have "getAccruedRewards 1001 st_borrowed 1 = Inr 1331811263318112633181126331811"
    by (simp add: st_borrowed_def eval_defs)
  moreover have "updateUserRewards 1001 1 st_borrowed = Inr st_synced"
    by (simp add: st_borrowed_def st_synced_def eval_defs)
  moreover have "accruedRewards (accounts st_synced 1) = 1331811263000"
    by (simp add: st_synced_def)
  ultimately show ?thesis by simp
qed

section \<open>Liquidating an account that never borrowed\<close>

text \<open>
  Claim C6. Liquidating a borrower whose real borrow is zero should fail as not
  liquidatable. For a borrower that never borrowed, the stored \<open>borrowIndex\<close> of the account
  is still 0, and \<open>liquidate\<close> divides by it without the fallback that \<open>borrow\<close>, \<open>repay\<close>,
  \<open>withdraw\<close> and the views use: the call aborts with a division by zero, before the
  health factor is looked at. Account 1 has supplied and enabled its collateral;
  account 2 sends one unit to liquidate it.
\<close>

theorem liquidate_never_borrowed_divides_by_zero:
  "run history_supplied init = Inr st_supplied
   \<and> collateralEnabled (accounts st_supplied 1)
   \<and> acc_borrowIndex (accounts st_supplied 1) = 0
   \<and> getBorrowBalance st_supplied 1 = Inr 0
   \<and> liquidate 1000 2 1 1 True st_supplied = Inl DivByZero"
proof -
  have "liquidate 1000 2 1 1 True st_supplied = Inl DivByZero"
    by (simp add: st_supplied_def eval_defs)
  moreover have "getBorrowBalance st_supplied 1 = Inr 0"
    by (simp add: st_supplied_def eval_defs)
  moreover have "collateralEnabled (accounts st_supplied 1)"
    and "acc_borrowIndex (accounts st_supplied 1) = 0"
    by (simp_all add: st_supplied_def)
  ultimately show ?thesis
    using run_history_supplied by simp
qed

section \<open>Repaying after interest has accrued\<close>

text \<open>
  Claim C9. \<open>repay\<close> should reduce the real borrow of the account by the repaid amount.
  It stores \<open>(userBorrowBalance - repayAmount) * 1e18 / borrowIndex\<close> together with the
  current index, and the balance is read back as
  \<open>borrowBalance * borrowIndex / account.borrowIndex\<close>, so the account owes the stored
  number: the remaining debt divided by the index. In \<open>st_borrowed\<close>, a year later, account 1
  owes \<open>534999999986384000000\<close> and repays one unit; afterwards it owes
  \<open>499999999999999999999\<close>, not \<open>534999999986383999999\<close>, while \<open>totalBorrow\<close> falls by one.
\<close>

theorem repay_divides_remaining_debt_by_index:
  "accrueInterest 31537000 (receive_value 1 st_borrowed) = Inr (receive_value 1 st_accrued)
   \<and> getBorrowBalance (receive_value 1 st_accrued) 1 = Inr 534999999986384000000
   \<and> repay 31537000 1 1 st_borrowed = Inr st_repaid
   \<and> getBorrowBalance st_repaid 1 = Inr 499999999999999999999
   \<and> totalBorrow st_repaid = 534999999986383999999"
proof -
  have "accrueInterest 31537000 (receive_value 1 st_borrowed) = Inr (receive_value 1 st_accrued)"
    by (simp add: st_borrowed_def st_accrued_def eval_defs)
  moreover have "getBorrowBalance (receive_value 1 st_accrued) 1 = Inr 534999999986384000000"
    by (simp add: st_accrued_def eval_defs)
  moreover have "repay 31537000 1 1 st_borrowed = Inr st_repaid"
    by (simp add: st_borrowed_def st_repaid_def eval_defs)
  moreover have "getBorrowBalance st_repaid 1 = Inr 499999999999999999999"
    by (simp add: st_repaid_def eval_defs)
  moreover have "totalBorrow st_repaid = 534999999986383999999"
    by (simp add: st_repaid_def)
  ultimately show ?thesis by simp
qed

section \<open>Disabled collateral means no debt\<close>

text \<open>
  Claim C3. In every reachable state an account whose collateral is disabled owes
  nothing: \<open>getBorrowBalance\<close> returns 0, and so does the formula
  \<open>borrowBalance * borrowIndex / account.borrowIndex\<close> (0 for a stored balance of 0). The
  stored balance itself is 0, so no later accrual, whatever it does to the contract's
  index, brings a debt back while the collateral stays disabled.
\<close>

theorem disabled_collateral_owes_nothing:
  assumes "reachable s" and "\<not> collateralEnabled (accounts s user)"
  shows "getBorrowBalance s user = Inr 0
    \<and> (if borrowBalance (accounts s user) = 0 then 0
        else borrowBalance (accounts s user) * borrowIndex s div acc_borrowIndex (accounts s user)) = 0
    \<and> (\<forall>now s'. accrueInterest now s = Inr s' \<longrightarrow> getBorrowBalance s' user = Inr 0)"
proof -
  from assms(1) have "borrow_inv s" by (rule reachable_borrow_inv)
  then have "account_ok (borrowIndex s) (accounts s user)" by (simp add: borrow_inv_def)
  with assms(2) have z: "borrowBalance (accounts s user) = 0"
    by (auto simp: account_ok_def)
  have "getBorrowBalance s' user = Inr 0" if "accrueInterest now s = Inr s'" for now s'
  proof -
    from accrueInterest_frame[OF that] have "accounts s' = accounts s" by simp
    with z show ?thesis by (simp add: getBorrowBalance_def)
  qed
  with z show ?thesis by (simp add: getBorrowBalance_def)
qed

lemma run_history_disabled: "run history_disabled init = Inr st_disabled"
proof -
  have "run history_disabled init
      = run [(1000, SupplyNative 2 (1000 * e18)),
             (1000, SetCollateralEnabled 2 True),
             (1000, Borrow 2 (100 * e18) True),
             (31537000, Repay 1 (600 * e18)),
             (31537000, SetCollateralEnabled 1 False)] st_borrowed"
    by (simp add: history_disabled_def run_append run_history_borrowed)
  also have "\<dots> = Inr st_disabled"
    by (simp add: st_borrowed_def st_disabled_def eval_defs fun_upd_twist)
  finally show ?thesis .
qed

theorem disabled_collateral_owes_nothing_witness:
  "reachable st_disabled
   \<and> \<not> collateralEnabled (accounts st_disabled 1)
   \<and> getBorrowBalance st_disabled 1 = Inr 0
   \<and> accrueInterest 63073000 st_disabled = Inr st_disabled_later
   \<and> borrowIndex st_disabled < borrowIndex st_disabled_later
   \<and> getBorrowBalance st_disabled_later 1 = Inr 0"
proof -
  have r: "reachable st_disabled"
    using run_history_disabled by (rule run_reachable)
  have c: "\<not> collateralEnabled (accounts st_disabled 1)"
    by (simp add: st_disabled_def)
  have a: "accrueInterest 63073000 st_disabled = Inr st_disabled_later"
    by (simp add: st_disabled_def st_disabled_later_def eval_defs)
  have i: "borrowIndex st_disabled < borrowIndex st_disabled_later"
    by (simp add: st_disabled_def st_disabled_later_def)
  from disabled_collateral_owes_nothing [OF r c] a i r c show ?thesis
    by blast
qed

section \<open>The liquidation boundary\<close>

text \<open>
  Claim C4. For a borrower with a positive real borrow, \<open>liquidate\<close> is refused as not
  liquidatable exactly when the health factor
  \<open>floor(floor(realSupply * 8000 / 10000) * 1e18 / realBorrow)\<close> is at least \<open>1e18\<close>: at a
  health factor of exactly \<open>1e18\<close> the call fails with "Not liquidatable", strictly
  below it the call passes the check. The statement is about a call from a reachable
  state, with the balances taken after the accrual of the call; the caller sends a
  value, is not the borrower, the borrower's collateral is enabled, and the two
  products of the health factor fit in 256 bits.
\<close>

theorem liquidation_permitted_iff_health_below_one:
  assumes reach: "reachable s"
    and acc: "accrueInterest now (receive_value v s) = Inr s1"
    and v: "0 < v" and other: "borrower \<noteq> sender"
    and coll: "collateralEnabled (accounts s1 borrower)"
    and rs: "getSupplyBalance s1 borrower = Inr realSupply"
    and rb: "getBorrowBalance s1 borrower = Inr realBorrow" and pos: "0 < realBorrow"
    and nov1: "realSupply * LIQUIDATION_THRESHOLD \<le> MAX_UINT256"
    and nov2: "realSupply * LIQUIDATION_THRESHOLD div 10000 * e18 \<le> MAX_UINT256"
  shows "liquidate now sender v borrower accepts s = Inl (Require ''Not liquidatable'')
         \<longleftrightarrow> e18 \<le> realSupply * LIQUIDATION_THRESHOLD div 10000 * e18 div realBorrow"
proof -
  define a where "a = accounts s1 borrower"
  have "borrow_inv (receive_value v s)"
    using reach by (simp add: borrow_inv_receive_value reachable_borrow_inv)
  then have "borrow_inv s1" using acc by (rule borrow_inv_accrueInterest)
  then have ok: "account_ok (borrowIndex s1) a" by (simp add: borrow_inv_def a_def)
  from rb pos have bb: "0 < borrowBalance a"
    by (auto simp: getBorrowBalance_def Let_def a_def split: if_splits)
  with ok have idx: "0 < acc_borrowIndex a" by (simp add: account_ok_def)
  from rb bb idx have rb': "mul_div (borrowBalance a) (borrowIndex s1) (acc_borrowIndex a) = Inr realBorrow"
    by (simp add: getBorrowBalance_def Let_def a_def)
  from rs have rs': "mul_div (supplyBalance a) (exchangeRate s1) e18 = Inr realSupply"
    by (simp add: getSupplyBalance_def a_def)
  have hf: "calculateHealthFactor realSupply realBorrow
      = Inr (realSupply * LIQUIDATION_THRESHOLD div 10000 * e18 div realBorrow)"
    using pos nov1 nov2
    by (simp add: calculateHealthFactor_def mul_div_def checked_mul_def checked_div_def)
  have "liquidate now sender v borrower accepts s = liquidate_body sender v borrower accepts s1"
    by (simp add: liquidate_def acc)
  then show ?thesis
    using v other coll rs' rb' hf
    unfolding liquidate_body_def Let_def a_def[symmetric]
    by (simp add: revert_if_def require_def a_def andThen_eq_Inl send_value_eq_Inl not_le)
qed

theorem liquidation_permitted_iff_health_below_one_witness:
  "reachable st_small
   \<and> accrueInterest 96682600 (receive_value 100 st_small) = Inr st_small_at_boundary
   \<and> getSupplyBalance st_small_at_boundary 1 = Inr 1116
   \<and> getBorrowBalance st_small_at_boundary 1 = Inr 892
   \<and> 1116 * LIQUIDATION_THRESHOLD div 10000 * e18 div 892 = e18
   \<and> liquidate 96682600 2 100 1 True st_small = Inl (Require ''Not liquidatable'')
   \<and> accrueInterest 97633000 (receive_value 100 st_small) = Inr st_small_below
   \<and> getSupplyBalance st_small_below 1 = Inr 1117
   \<and> getBorrowBalance st_small_below 1 = Inr 894
   \<and> 1117 * LIQUIDATION_THRESHOLD div 10000 * e18 div 894 = 998881431767337807
   \<and> liquidate 97633000 2 100 1 True st_small \<noteq> Inl (Require ''Not liquidatable'')
   \<and> liquidate 97633000 2 100 1 True st_small = Inr st_small_liquidated"
proof -
  have a1: "accrueInterest 96682600 (receive_value 100 st_small) = Inr st_small_at_boundary"
    by (simp add: st_small_def st_small_at_boundary_def eval_defs)
  have c1: "collateralEnabled (accounts st_small_at_boundary 1)"
    by (simp add: st_small_at_boundary_def)
  have s1: "getSupplyBalance st_small_at_boundary 1 = Inr 1116"
    by (simp add: st_small_at_boundary_def eval_defs)
  have b1: "getBorrowBalance st_small_at_boundary 1 = Inr 892"
    by (simp add: st_small_at_boundary_def eval_defs)
  have h1: "1116 * LIQUIDATION_THRESHOLD div 10000 * e18 div 892 = e18"
    by (simp add: LIQUIDATION_THRESHOLD_def)
  have n1: "1116 * LIQUIDATION_THRESHOLD \<le> MAX_UINT256"
    "1116 * LIQUIDATION_THRESHOLD div 10000 * e18 \<le> MAX_UINT256"
    by (simp_all add: LIQUIDATION_THRESHOLD_def MAX_UINT256_numeral)
  have l1: "liquidate 96682600 2 100 1 True st_small = Inl (Require ''Not liquidatable'')"
    using liquidation_permitted_iff_health_below_one
      [OF reachable_st_small a1 _ _ c1 s1 b1 _ n1, of 2 True] h1
    by simp
  have a2: "accrueInterest 97633000 (receive_value 100 st_small) = Inr st_small_below"
    by (simp add: st_small_def st_small_below_def eval_defs)
  have c2: "collateralEnabled (accounts st_small_below 1)"
    by (simp add: st_small_below_def)
  have s2: "getSupplyBalance st_small_below 1 = Inr 1117"
    by (simp add: st_small_below_def eval_defs)
  have b2: "getBorrowBalance st_small_below 1 = Inr 894"
    by (simp add: st_small_below_def eval_defs)
  have h2: "1117 * LIQUIDATION_THRESHOLD div 10000 * e18 div 894 = 998881431767337807"
    by (simp add: LIQUIDATION_THRESHOLD_def)
  have n2: "1117 * LIQUIDATION_THRESHOLD \<le> MAX_UINT256"
    "1117 * LIQUIDATION_THRESHOLD div 10000 * e18 \<le> MAX_UINT256"
    by (simp_all add: LIQUIDATION_THRESHOLD_def MAX_UINT256_numeral)
  have l2: "liquidate 97633000 2 100 1 True st_small \<noteq> Inl (Require ''Not liquidatable'')"
    using liquidation_permitted_iff_health_below_one
      [OF reachable_st_small a2 _ _ c2 s2 b2 _ n2, of 2 True] h2
    by simp
  have l3: "liquidate 97633000 2 100 1 True st_small = Inr st_small_liquidated"
    by (simp add: st_small_def st_small_liquidated_def eval_defs)
  show ?thesis
    using reachable_st_small a1 s1 b1 h1 l1 a2 s2 b2 h2 l2 l3 by simp
qed

section \<open>The liquidity invariant\<close>

text \<open>
  Claim C2, as amended. \<open>totalBorrow \<le> totalSupply\<close> holds after every successful \<open>borrow\<close>,
  and \<open>supplyNative\<close>, \<open>repay\<close>, \<open>setCollateralEnabled\<close> and \<open>claimRewards\<close> keep it from the
  state that their interest accrual produces. (\<open>s1\<close> is that state: the accrual runs on
  the storage with the value of the call received.)
\<close>

theorem liquidity_kept_by_call:
  assumes ok: "exec now c s = Inr s'"
    and acc: "accrueInterest now (receive_value (msg_value c) s) = Inr s1"
    and kind: "liquidity_preserving c"
    and pre: "totalBorrow s1 \<le> totalSupply s1 \<or> (\<exists>sender amount accepts. c = Borrow sender amount accepts)"
  shows "totalBorrow s' \<le> totalSupply s'"
proof (cases c)
  case (SupplyNative sender v)
  with ok acc obtain s2 where r: "updateUserRewards now sender s1 = Inr s2"
    and b: "supplyNative_body sender v s2 = Inr s'"
    by (auto simp: supplyNative_eq_Inr)
  from updateUserRewards_totals(1,2)[OF r] supplyNative_body_totals[OF b] pre SupplyNative show ?thesis
    by auto
next
  case (Borrow sender amount accepts)
  with ok obtain s2 where "borrow_body sender amount accepts s2 = Inr s'"
    by (auto simp: borrow_eq_Inr)
  from borrow_body_totals[OF this] show ?thesis by simp
next
  case (Repay sender v)
  with ok acc obtain s2 where r: "updateUserRewards now sender s1 = Inr s2"
    and b: "repay_body sender v s2 = Inr s'"
    by (auto simp: repay_eq_Inr)
  from updateUserRewards_totals(1,2)[OF r] repay_body_totals[OF b] pre Repay show ?thesis
    by auto
next
  case (SetCollateralEnabled sender enabled)
  with ok acc obtain s2 where r: "updateUserRewards now sender s1 = Inr s2"
    and b: "setCollateralEnabled_body sender enabled s2 = Inr s'"
    by (auto simp: setCollateralEnabled_eq_Inr receive_value_def)
  from updateUserRewards_totals(1,2)[OF r] setCollateralEnabled_body_totals[OF b] pre SetCollateralEnabled show ?thesis
    by auto
next
  case (ClaimRewards sender accepts)
  with ok acc obtain s2 where r: "updateUserRewards now sender s1 = Inr s2"
    and b: "claimRewards_body now sender accepts s2 = Inr s'"
    by (auto simp: claimRewards_eq_Inr receive_value_def)
  from updateUserRewards_totals(1,2)[OF r] claimRewards_body_totals[OF b] pre ClaimRewards show ?thesis
    by auto
next
  case (Withdraw sender amount accepts)
  with kind show ?thesis by simp
next
  case (Liquidate sender v borrower accepts)
  with kind show ?thesis by simp
next
  case (Receive v)
  with kind show ?thesis by simp
qed

theorem liquidity_kept_by_call_witness:
  "exec 31537000 (Repay 1 1) st_borrowed = Inr st_repaid
   \<and> accrueInterest 31537000 (receive_value (msg_value (Repay 1 1)) st_borrowed)
       = Inr (receive_value 1 st_accrued)
   \<and> liquidity_preserving (Repay 1 1)
   \<and> totalBorrow (receive_value 1 st_accrued) \<le> totalSupply (receive_value 1 st_accrued)
   \<and> totalBorrow st_repaid \<le> totalSupply st_repaid"
proof -
  have e: "exec 31537000 (Repay 1 1) st_borrowed = Inr st_repaid"
    by (simp add: st_borrowed_def st_repaid_def eval_defs)
  have a: "accrueInterest 31537000 (receive_value (msg_value (Repay 1 1)) st_borrowed)
       = Inr (receive_value 1 st_accrued)"
    by (simp add: st_borrowed_def st_accrued_def eval_defs)
  have k: "liquidity_preserving (Repay 1 1)"
    by simp
  have p: "totalBorrow (receive_value 1 st_accrued) \<le> totalSupply (receive_value 1 st_accrued)"
    by (simp add: st_accrued_def receive_value_def)
  from liquidity_kept_by_call [OF e a k disjI1, OF p] e a k p show ?thesis
    by simp
qed

lemma run_history_underwater: "run history_underwater init = Inr st_underwater"
proof -
  have "run history_underwater init
      = run [(473041000, SetCollateralEnabled 1 True)] st_borrowed70"
    by (simp add: history_underwater_def run_append run_history_borrowed70)
  also have "\<dots> = Inr st_underwater"
    by (simp add: st_borrowed70_def st_underwater_def eval_defs)
  finally show ?thesis .
qed

text \<open>
  Claim C2 as the specification states it fails: \<open>totalBorrow \<le> totalSupply\<close> is not an
  invariant of the reachable states. Account 1 supplies 1000 tokens and borrows 700.
  Fifteen years later the accrual of the next call adds the interest to \<open>totalBorrow\<close>
  and only the suppliers' 60 percent of it to \<open>totalSupply\<close>.
\<close>

theorem reachable_state_with_borrow_above_supply:
  "reachable st_underwater \<and> totalSupply st_underwater < totalBorrow st_underwater"
proof
  show "reachable st_underwater"
    using run_history_underwater by (rule run_reachable)
  show "totalSupply st_underwater < totalBorrow st_underwater"
    by (simp add: st_underwater_def)
qed

section \<open>Claiming rewards\<close>

text \<open>
  Claim C10. A successful \<open>claimRewards\<close> leaves \<open>accruedRewards\<close> of the caller at 0,
  whatever was paid. The rewards \<open>r\<close> accrued after the sync of the call are positive;
  the contract pays \<open>min r balance\<close>, so when its balance is below \<open>r\<close> the rest is
  forfeited.
\<close>

theorem claimRewards_forfeits_shortfall:
  assumes "accrueInterest now s = Inr s1" and "updateUserRewards now sender s1 = Inr s2"
    and "claimRewards now sender accepts s = Inr s'"
  shows "accruedRewards (accounts s' sender) = 0
    \<and> 0 < accruedRewards (accounts s2 sender)
    \<and> balance s' = balance s2 - min (accruedRewards (accounts s2 sender)) (balance s2)"
proof -
  from assms have "claimRewards_body now sender accepts s2 = Inr s'"
    by (simp add: claimRewards_def)
  then show ?thesis
    unfolding claimRewards_body_def Let_def
    by (elim andThenE) (auto simp: send_value_eq_Inr require_eq_Inr min_def)
qed

theorem claimRewards_forfeits_shortfall_witness:
  "accrueInterest 315361000 st_borrowed70 = Inr st_before_sync
   \<and> updateUserRewards 315361000 1 st_before_sync = Inr st_before_claim
   \<and> claimRewards 315361000 1 True st_borrowed70 = Inr st_claimed
   \<and> accruedRewards (accounts st_before_claim 1) = 2191019999704574400000
   \<and> balance st_before_claim = 300000000000000000000
   \<and> accruedRewards (accounts st_claimed 1) = 0
   \<and> balance st_claimed = 0"
proof -
  have a: "accrueInterest 315361000 st_borrowed70 = Inr st_before_sync"
    by (simp add: st_borrowed70_def st_before_sync_def eval_defs)
  have u: "updateUserRewards 315361000 1 st_before_sync = Inr st_before_claim"
    by (simp add: st_before_sync_def st_before_claim_def eval_defs)
  have c: "claimRewards 315361000 1 True st_borrowed70 = Inr st_claimed"
    by (simp add: st_borrowed70_def st_claimed_def eval_defs)
  have r: "accruedRewards (accounts st_before_claim 1) = 2191019999704574400000"
    and b: "balance st_before_claim = 300000000000000000000"
    by (simp_all add: st_before_claim_def)
  from claimRewards_forfeits_shortfall [OF a u c] a u c r b show ?thesis
    by simp
qed

section \<open>Supplying and withdrawing the same amount\<close>

text \<open>
  Claim C8, as amended. Let a \<open>supplyNative\<close> of \<open>x\<close> from a reachable state succeed; \<open>s0\<close> is
  the storage after the interest accrual and the reward sync of that call, before its
  own effect. A \<open>withdraw\<close> of \<open>x\<close> by the same account at the same timestamp, to a
  receiver that accepts the payment, and which neither overflows nor is refused by the
  collateral check, fails for insufficient balance exactly when the account had no
  stored supply and the exchange rate does not divide \<open>x * 1e18\<close>. In every other case it
  succeeds and restores \<open>totalSupply\<close> and the real supply of the account to their
  values in \<open>s0\<close>, the stored supply and the contract's balance to their values before
  the supply; when no time has passed since the last accrual, \<open>totalSupply\<close> and the
  real supply are those of before the supply as well.
\<close>

theorem supply_then_withdraw_roundtrip:
  assumes reach: "reachable s"
    and a0: "accrueInterest now (receive_value x s) = Inr sa"
    and r0: "updateUserRewards now user sa = Inr s0"
    and sup: "supplyNative now user x s = Inr s1"
    and acc: "accepts"
    and nov: "withdraw now user x accepts s1 \<noteq> Inl Overflow"
    and ncd: "withdraw now user x accepts s1 \<noteq> Inl CollateralDisabled"
  shows "(withdraw now user x accepts s1 = Inl InsufficientBalance
            \<longleftrightarrow> supplyBalance (accounts s0 user) = 0 \<and> \<not> exchangeRate s0 dvd x * e18)
         \<and> (0 < supplyBalance (accounts s0 user) \<or> exchangeRate s0 dvd x * e18 \<longrightarrow>
             (\<exists>s2. withdraw now user x accepts s1 = Inr s2
                \<and> totalSupply s2 = totalSupply s0
                \<and> supplyBalance (accounts s2 user) = supplyBalance (accounts s user)
                \<and> getSupplyBalance s2 user = getSupplyBalance s0 user
                \<and> balance s2 = balance s
                \<and> (lastUpdateTime s = now \<longrightarrow>
                     totalSupply s2 = totalSupply s
                     \<and> getSupplyBalance s2 user = getSupplyBalance s user)))"
proof -
  define sb where "sb = supplyBalance (accounts s0 user)"
  define er where "er = exchangeRate s0"
  from sup a0 r0 have body: "supplyNative_body user x s0 = Inr s1"
    by (simp add: supplyNative_def)
  then have x: "x \<noteq> 0" and er: "er \<noteq> 0" and xe: "x * e18 \<le> MAX_UINT256"
    and s1: "s1 = s0\<lparr>accounts := (accounts s0)(user := (accounts s0 user)
                  \<lparr>supplyBalance := sb + x * e18 div er,
                   acc_supplyIndex := supplyIndex s0\<rparr>),
               totalSupply := totalSupply s0 + x\<rparr>"
    by (simp_all add: supplyNative_body_eq_Inr sb_def er_def)
  have fa: "accounts sa = accounts s" "exchangeRate s \<le> exchangeRate sa"
    using accrueInterest_frame[OF a0] by (simp_all add: receive_value_def)
  have sbs: "sb = supplyBalance (accounts s user)"
    using updateUserRewards_frame[OF r0] fa(1) by (simp add: sb_def same_position_def)
  have t0: "lastUpdateTime s0 = now"
    using accrueInterest_frame[OF a0] updateUserRewards_totals(6)[OF r0] by simp
  have u0: "lastRewardUpdate (accounts s0 user) = now"
    using updateUserRewards_frame[OF r0] by simp
  have bal0: "balance s0 = balance s + x"
    using accrueInterest_frame[OF a0] updateUserRewards_totals(3)[OF r0]
    by (simp add: receive_value_def)
  have idle: "totalSupply s0 = totalSupply s \<and> exchangeRate s0 = exchangeRate s"
    if "lastUpdateTime s = now"
  proof -
    have "accrueInterest now (receive_value x s) = Inr (receive_value x s)"
      by (rule accrueInterest_idle) (simp add: receive_value_def that)
    with a0 have "sa = receive_value x s" by simp
    then show ?thesis
      using updateUserRewards_totals(1,4)[OF r0] by (simp add: receive_value_def)
  qed
  have "exec now (SupplyNative user x) s = Inr s1" using sup by simp
  with reach have "reachable s1" by (rule reachable_step)
  then have bi: "0 < borrowIndex s1" by (auto dest: reachable_borrow_inv simp: borrow_inv_def)
  have "accrueInterest now s1 = Inr s1"
    by (rule accrueInterest_idle) (simp add: s1 t0)
  moreover have "updateUserRewards now user s1 = Inr s1"
    by (rule updateUserRewards_idle) (simp add: s1 u0)
  ultimately have w: "withdraw now user x accepts s1 = withdraw_body user x accepts s1"
    by (simp add: withdraw_def)
  have er1: "exchangeRate s1 \<noteq> 0" using er by (simp add: s1 er_def)
  have cov: "x \<le> (sb + x * e18 div er) * er div e18 \<longleftrightarrow> 0 < sb \<or> er dvd x * e18"
    using er by (intro credited_covers_amount) simp
  have usb: "supplyBalance (accounts s1 user) * exchangeRate s1 div e18
      = (sb + x * e18 div er) * er div e18"
    by (simp add: s1 er_def)
  have short: "withdraw_body user x accepts s1 = Inl InsufficientBalance"
    if z: "sb = 0" and nd: "\<not> er dvd x * e18"
  proof -
    have "x * e18 div er * er \<le> x * e18" by simp
    then have le: "x * e18 div er * er \<le> MAX_UINT256" using xe by (rule order_trans)
    have "\<not> x \<le> (sb + x * e18 div er) * er div e18" using cov z nd by simp
    then have "x * e18 div er * er div e18 < x" using z by simp
    with le x z show ?thesis
      unfolding withdraw_body_def Let_def
      by (simp add: s1 er_def[symmetric] mul_div_def checked_mul_def checked_div_def
          revert_if_def)
  qed
  have good: "\<exists>s2. withdraw_body user x accepts s1 = Inr s2
                \<and> totalSupply s2 = totalSupply s0
                \<and> supplyBalance (accounts s2 user) = sb
                \<and> exchangeRate s2 = er
                \<and> balance s2 = balance s"
    if c: "0 < sb \<or> er dvd x * e18"
  proof (cases "withdraw_body user x accepts s1")
    case (Inl e)
    from nov ncd have e: "e \<noteq> Overflow" "e \<noteq> CollateralDisabled"
      by (simp_all add: w Inl)
    from c cov have "x \<le> (sb + x * e18 div er) * er div e18" by simp
    with withdraw_body_eq_Inl[OF Inl bi er1] e x acc bal0
    have False
      by (auto simp: s1 er_def sb_def)
    then show ?thesis ..
  next
    case (Inr s2)
    then have "totalSupply s2 = totalSupply s0
           \<and> supplyBalance (accounts s2 user) = sb
           \<and> exchangeRate s2 = er
           \<and> balance s2 = balance s"
      unfolding withdraw_body_def Let_def
      by (elim andThenE)
        (auto simp: send_value_eq_Inr mul_div_eq_Inr checked_sub_eq_Inr s1 bal0 er_def)
    then show ?thesis by (simp add: Inr)
  qed
  have first: "withdraw now user x accepts s1 = Inl InsufficientBalance
            \<longleftrightarrow> sb = 0 \<and> \<not> er dvd x * e18"
  proof
    assume f: "withdraw now user x accepts s1 = Inl InsufficientBalance"
    show "sb = 0 \<and> \<not> er dvd x * e18"
    proof (rule ccontr)
      assume "\<not> (sb = 0 \<and> \<not> er dvd x * e18)"
      then have "0 < sb \<or> er dvd x * e18" by auto
      from good[OF this] f w show False by auto
    qed
  next
    assume "sb = 0 \<and> \<not> er dvd x * e18"
    then show "withdraw now user x accepts s1 = Inl InsufficientBalance"
      using short w by simp
  qed
  have second: "\<exists>s2. withdraw now user x accepts s1 = Inr s2
                \<and> totalSupply s2 = totalSupply s0
                \<and> supplyBalance (accounts s2 user) = supplyBalance (accounts s user)
                \<and> getSupplyBalance s2 user = getSupplyBalance s0 user
                \<and> balance s2 = balance s
                \<and> (lastUpdateTime s = now \<longrightarrow>
                     totalSupply s2 = totalSupply s
                     \<and> getSupplyBalance s2 user = getSupplyBalance s user)"
    if c: "0 < sb \<or> er dvd x * e18"
  proof -
    from good[OF c] obtain s2 where s2: "withdraw_body user x accepts s1 = Inr s2"
      "totalSupply s2 = totalSupply s0" "supplyBalance (accounts s2 user) = sb"
      "exchangeRate s2 = er" "balance s2 = balance s" by blast
    have "getSupplyBalance s2 user = getSupplyBalance s0 user"
      using s2 by (simp add: getSupplyBalance_def sb_def er_def)
    moreover have "totalSupply s2 = totalSupply s
                     \<and> getSupplyBalance s2 user = getSupplyBalance s user"
      if "lastUpdateTime s = now"
      using idle[OF that] s2 sbs by (simp add: getSupplyBalance_def er_def)
    ultimately show ?thesis using s2 sbs w by auto
  qed
  show ?thesis using first second by (simp add: sb_def er_def)
qed

theorem supply_then_withdraw_roundtrip_witness:
  "reachable st_borrowed
   \<and> accrueInterest 31537000 (receive_value 1 st_borrowed) = Inr (receive_value 1 st_accrued)
   \<and> updateUserRewards 31537000 1 (receive_value 1 st_accrued) = Inr st_unit_synced
   \<and> supplyNative 31537000 1 1 st_borrowed = Inr st_unit_supplied
   \<and> 0 < supplyBalance (accounts st_unit_synced 1)
   \<and> \<not> exchangeRate st_unit_synced dvd 1 * e18
   \<and> withdraw 31537000 1 1 True st_unit_supplied = Inr st_unit_withdrawn
   \<and> totalSupply st_unit_withdrawn = totalSupply st_unit_synced
   \<and> supplyBalance (accounts st_unit_withdrawn 1) = supplyBalance (accounts st_borrowed 1)
   \<and> getSupplyBalance st_unit_withdrawn 1 = getSupplyBalance st_unit_synced 1
   \<and> balance st_unit_withdrawn = balance st_borrowed
   \<and> lastUpdateTime st_borrowed = 1000
   \<and> supplyNative 1000 1 (5 * e18) st_borrowed = Inr st_resupplied
   \<and> withdraw 1000 1 (5 * e18) True st_resupplied = Inr st_borrowed
   \<and> withdraw 1000 1 (5 * e18) True st_resupplied \<noteq> Inl InsufficientBalance"
proof -
  have a: "accrueInterest 31537000 (receive_value 1 st_borrowed)
      = Inr (receive_value 1 st_accrued)"
    by (simp add: st_borrowed_def st_accrued_def eval_defs)
  have u: "updateUserRewards 31537000 1 (receive_value 1 st_accrued) = Inr st_unit_synced"
    by (simp add: st_accrued_def st_unit_synced_def eval_defs)
  have s: "supplyNative 31537000 1 1 st_borrowed = Inr st_unit_supplied"
    by (simp add: st_borrowed_def st_unit_supplied_def eval_defs)
  have p: "0 < supplyBalance (accounts st_unit_synced 1)"
    by (simp add: st_unit_synced_def)
  have d: "\<not> exchangeRate st_unit_synced dvd 1 * e18"
    by (simp add: st_unit_synced_def dvd_eq_mod_eq_0)
  have w: "withdraw 31537000 1 1 True st_unit_supplied = Inr st_unit_withdrawn"
    by (simp add: st_unit_supplied_def st_unit_withdrawn_def eval_defs)
  have sb: "supplyBalance (accounts st_unit_withdrawn 1) = supplyBalance (accounts st_borrowed 1)"
    by (simp add: st_unit_withdrawn_def st_borrowed_def)
  have first: "totalSupply st_unit_withdrawn = totalSupply st_unit_synced
      \<and> getSupplyBalance st_unit_withdrawn 1 = getSupplyBalance st_unit_synced 1
      \<and> balance st_unit_withdrawn = balance st_borrowed"
    using supply_then_withdraw_roundtrip [OF reachable_st_borrowed a u s, of True] p w
    by simp
  have t: "lastUpdateTime st_borrowed = 1000"
    by (simp add: st_borrowed_def)
  have a': "accrueInterest 1000 (receive_value (5 * e18) st_borrowed)
      = Inr (receive_value (5 * e18) st_borrowed)"
    by (simp add: st_borrowed_def eval_defs)
  have u': "updateUserRewards 1000 1 (receive_value (5 * e18) st_borrowed)
      = Inr (receive_value (5 * e18) st_borrowed)"
    by (simp add: st_borrowed_def eval_defs)
  have s': "supplyNative 1000 1 (5 * e18) st_borrowed = Inr st_resupplied"
    by (simp add: st_borrowed_def st_resupplied_def eval_defs)
  have w': "withdraw 1000 1 (5 * e18) True st_resupplied = Inr st_borrowed"
    by (simp add: st_borrowed_def st_resupplied_def eval_defs)
  have p': "0 < supplyBalance (accounts (receive_value (5 * e18) st_borrowed) 1)"
    by (simp add: st_borrowed_def receive_value_def)
  have second: "withdraw 1000 1 (5 * e18) True st_resupplied \<noteq> Inl InsufficientBalance"
    using supply_then_withdraw_roundtrip [OF reachable_st_borrowed a' u' s', of True] p' w'
    by simp
  show ?thesis
    using reachable_st_borrowed a u s p d w sb first t s' w' second by simp
qed

text \<open>
  Claim C8 as the specification states it fails for an account with no stored supply
  at an exchange rate above \<open>1e18\<close>. In \<open>st_borrowed\<close>, a year after the borrow, the accrual of
  the call raises the rate to \<open>1020999999991830400\<close>. Account 2 supplies one unit:
  \<open>1 * 1e18 / exchangeRate\<close> is 0, so nothing is credited, and the withdrawal of that unit
  is refused.
\<close>

theorem withdraw_after_supply_insufficient_balance:
  "reachable st_borrowed
   \<and> supplyNative 31537000 2 1 st_borrowed = Inr st_dust_supplied
   \<and> exchangeRate st_dust_supplied = 1020999999991830400
   \<and> withdraw 31537000 2 1 True st_dust_supplied = Inl InsufficientBalance"
proof -
  have "supplyNative 31537000 2 1 st_borrowed = Inr st_dust_supplied"
    by (simp add: st_borrowed_def st_dust_supplied_def eval_defs)
  moreover have "exchangeRate st_dust_supplied = 1020999999991830400"
    by (simp add: st_dust_supplied_def)
  moreover have "withdraw 31537000 2 1 True st_dust_supplied = Inl InsufficientBalance"
    by (simp add: st_dust_supplied_def eval_defs)
  ultimately show ?thesis
    using reachable_st_borrowed by simp
qed

text \<open>
  The collateral check can refuse the withdrawal as well. In \<open>st_borrowed70\<close> account 1
  borrowed 70 percent of its supply; a year later its debt \<open>762999999988105600000\<close> is
  above 70 percent of its supply, and after supplying one token it cannot withdraw it.
\<close>

lemma withdraw_after_supply_over_collateral_limit:
  "supplyNative 31537000 1 e18 st_borrowed70 = Inr st_over_limit_supplied
   \<and> getBorrowBalance st_over_limit_supplied 1 = Inr 762999999988105600000
   \<and> getSupplyBalance st_over_limit_supplied 1 = Inr 1038799999992863359999
   \<and> withdraw 31537000 1 e18 True st_over_limit_supplied = Inl CollateralDisabled"
proof -
  have "supplyNative 31537000 1 e18 st_borrowed70 = Inr st_over_limit_supplied"
    by (simp add: st_borrowed70_def st_over_limit_supplied_def eval_defs)
  moreover have "getBorrowBalance st_over_limit_supplied 1 = Inr 762999999988105600000"
    by (simp add: st_over_limit_supplied_def eval_defs)
  moreover have "getSupplyBalance st_over_limit_supplied 1 = Inr 1038799999992863359999"
    by (simp add: st_over_limit_supplied_def eval_defs)
  moreover have "withdraw 31537000 1 e18 True st_over_limit_supplied = Inl CollateralDisabled"
    by (simp add: st_over_limit_supplied_def eval_defs)
  ultimately show ?thesis by simp
qed

section \<open>The collateral check of withdraw\<close>

lemma run_history_drained: "run history_drained init = Inr st_drained"
  by (simp add: history_drained_def st_drained_def eval_defs fun_upd_twist)

lemma QieLend_run_preserves_reachable:
  "QieLend_reachable s \<Longrightarrow> QieLend_run cs s = Inr s' \<Longrightarrow> QieLend_reachable s'"
proof (induction cs arbitrary: s)
  case Nil
  then show ?case by simp
next
  case (Cons c cs)
  obtain now k where c: "c = (now, k)" by (cases c)
  from Cons.prems(2) obtain s1 where s1: "QieLend_exec now k s = Inr s1"
    and rest: "QieLend_run cs s1 = Inr s'"
    by (auto simp: c andThen_eq_Inr)
  have "QieLend_reachable s1" using Cons.prems(1) s1 by (rule QieLend_reachable_step)
  then show ?case using rest by (rule Cons.IH)
qed

lemma QieLend_run_history_supplied:
  "QieLend_run QieLend_history_supplied (QieLend_init 1000) = Inr QieLend_st_supplied"
  by (simp add: QieLend_history_supplied_def QieLend_st_supplied_def QieLend_eval_defs)

lemma QieLend_reachable_st_supplied: "QieLend_reachable QieLend_st_supplied"
  using QieLend_reachable_init QieLend_run_history_supplied
  by (rule QieLend_run_preserves_reachable)

text \<open>
  Claim C7, as amended. In \<open>QieLendNative\<close>, take an account with enabled collateral and a
  positive real borrow, both read after the modifiers of the call (\<open>s2\<close>), and an amount
  between 1 and its real supply; the two products \<open>(realSupply - amount) * 7000\<close> and
  \<open>amount * 1e18\<close> fit in 256 bits. Then \<open>withdraw\<close> is refused with \<open>CollateralDisabled\<close>
  exactly when \<open>(realSupply - amount) * 7000 / 10000\<close> is below the real borrow
  \<open>borrowBalance * borrowIndex / borrowIdx\<close>, and it succeeds exactly when that bound
  covers the real borrow, \<open>totalSupply\<close> and the contract's balance cover the amount and
  the caller accepts the payment. In \<open>QieLend\<close> no account of a reachable state has a
  stored debt, so the statement has no instance there.
\<close>

theorem withdraw_collateral_gate:
  assumes a: "accrueInterest now s = Inr s1"
    and r: "updateUserRewards now sender s1 = Inr s2"
    and coll: "collateralEnabled (accounts s2 sender)"
    and rs: "getSupplyBalance s2 sender = Inr realSupply"
    and rb: "getBorrowBalance s2 sender = Inr realBorrow"
    and pos: "0 < realBorrow"
    and amt: "0 < amount" and le: "amount \<le> realSupply"
    and nov1: "(realSupply - amount) * COLLATERAL_FACTOR \<le> MAX_UINT256"
    and nov2: "amount * e18 \<le> MAX_UINT256"
    and q: "QieLend_reachable q"
  shows "(withdraw now sender amount accepts s = Inl CollateralDisabled
            \<longleftrightarrow> (realSupply - amount) * COLLATERAL_FACTOR div 10000 < realBorrow)
         \<and> ((\<exists>s'. withdraw now sender amount accepts s = Inr s')
            \<longleftrightarrow> realBorrow \<le> (realSupply - amount) * COLLATERAL_FACTOR div 10000
                \<and> amount \<le> totalSupply s2 \<and> accepts \<and> amount \<le> balance s2)
         \<and> borrowBalance (accounts q user) = 0"
proof -
  define account where "account = accounts s2 sender"
  define maxBorrow where "maxBorrow = (realSupply - amount) * COLLATERAL_FACTOR div 10000"
  define borrowIdx where "borrowIdx = (if acc_borrowIndex account = 0 then borrowIndex s2
                                       else acc_borrowIndex account)"
  have w: "withdraw now sender amount accepts s = withdraw_body sender amount accepts s2"
    by (simp add: withdraw_def a r)
  from rs have sup: "supplyBalance account * exchangeRate s2 \<le> MAX_UINT256"
    "realSupply = supplyBalance account * exchangeRate s2 div e18"
    by (simp_all add: getSupplyBalance_def mul_div_eq_Inr account_def)
  from rb pos have bb: "0 < borrowBalance account"
    by (auto simp: getBorrowBalance_def Let_def account_def split: if_splits)
  with rb have bor: "mul_div (borrowBalance account) (borrowIndex s2) borrowIdx = Inr realBorrow"
    by (cases "acc_borrowIndex account = 0")
      (simp_all add: getBorrowBalance_def Let_def account_def borrowIdx_def)
  have er: "0 < exchangeRate s2"
  proof (rule ccontr)
    assume "\<not> 0 < exchangeRate s2"
    then have "realSupply = 0" using sup(2) by simp
    with amt le show False by simp
  qed
  have k: "amount * e18 div exchangeRate s2 \<le> supplyBalance account"
    using le er unfolding sup(2) by (rule scaled_amount_within_balance)
  have eq: "withdraw_body sender amount accepts s2 =
      (if maxBorrow < realBorrow then Inl CollateralDisabled
       else if totalSupply s2 < amount then Inl Underflow
       else send_value accepts amount ''Native transfer failed''
         (s2\<lparr>accounts := (accounts s2)(sender := account
                \<lparr>supplyBalance := supplyBalance account - amount * e18 div exchangeRate s2,
                 acc_supplyIndex := supplyIndex s2\<rparr>),
              totalSupply := totalSupply s2 - amount\<rparr>))"
    using amt le sup(1) bb coll nov1 nov2 er k
    unfolding withdraw_body_def Let_def account_def[symmetric] borrowIdx_def[symmetric] bor
    by (simp add: mul_div_def checked_mul_def checked_div_def checked_sub_def revert_if_def
        sup(2)[symmetric] maxBorrow_def not_less)
  have first: "withdraw_body sender amount accepts s2 = Inl CollateralDisabled
      \<longleftrightarrow> maxBorrow < realBorrow"
    by (simp add: eq send_value_eq_Inl)
  have second: "(\<exists>s'. withdraw_body sender amount accepts s2 = Inr s')
      \<longleftrightarrow> realBorrow \<le> maxBorrow \<and> amount \<le> totalSupply s2 \<and> accepts \<and> amount \<le> balance s2"
    by (auto simp: eq send_value_eq_Inr)
  from q have "no_debt q" by (rule QieLend_reachable_no_debt)
  then have "borrowBalance (accounts q user) = 0" by (simp add: no_debt_def)
  with first second show ?thesis by (simp add: w maxBorrow_def)
qed

theorem withdraw_collateral_gate_witness:
  "accrueInterest 31537000 st_borrowed = Inr st_accrued
   \<and> updateUserRewards 31537000 1 st_accrued = Inr st_year_synced
   \<and> collateralEnabled (accounts st_year_synced 1)
   \<and> getSupplyBalance st_year_synced 1 = Inr 1020999999991830400000
   \<and> getBorrowBalance st_year_synced 1 = Inr 534999999986384000000
   \<and> (1020999999991830400000 - 100 * e18) * COLLATERAL_FACTOR div 10000
       = 644699999994281280000
   \<and> withdraw 31537000 1 (100 * e18) True st_borrowed = Inr st_year_withdrawn
   \<and> (1020999999991830400000 - 400 * e18) * COLLATERAL_FACTOR div 10000
       = 434699999994281280000
   \<and> withdraw 31537000 1 (400 * e18) True st_borrowed = Inl CollateralDisabled
   \<and> QieLend_reachable QieLend_st_supplied
   \<and> QieLend_borrow 1000 1 e18 True QieLend_st_supplied = Inl DivByZero
   \<and> borrowBalance (accounts QieLend_st_supplied 1) = 0"
proof -
  have a: "accrueInterest 31537000 st_borrowed = Inr st_accrued"
    by (simp add: st_borrowed_def st_accrued_def eval_defs)
  have u: "updateUserRewards 31537000 1 st_accrued = Inr st_year_synced"
    by (simp add: st_accrued_def st_year_synced_def eval_defs)
  have c: "collateralEnabled (accounts st_year_synced 1)"
    by (simp add: st_year_synced_def)
  have s: "getSupplyBalance st_year_synced 1 = Inr 1020999999991830400000"
    by (simp add: st_year_synced_def eval_defs)
  have b: "getBorrowBalance st_year_synced 1 = Inr 534999999986384000000"
    by (simp add: st_year_synced_def eval_defs)
  have m1: "(1020999999991830400000 - 100 * e18) * COLLATERAL_FACTOR div 10000
       = 644699999994281280000"
    and m2: "(1020999999991830400000 - 400 * e18) * COLLATERAL_FACTOR div 10000
       = 434699999994281280000"
    by (simp_all add: COLLATERAL_FACTOR_def)
  have n1: "(1020999999991830400000 - 100 * e18) * COLLATERAL_FACTOR \<le> MAX_UINT256"
    "100 * e18 * e18 \<le> MAX_UINT256"
    and n2: "(1020999999991830400000 - 400 * e18) * COLLATERAL_FACTOR \<le> MAX_UINT256"
    "400 * e18 * e18 \<le> MAX_UINT256"
    by (simp_all add: COLLATERAL_FACTOR_def MAX_UINT256_numeral)
  have p: "0 < (534999999986384000000 :: nat)"
    by simp
  have a1: "0 < 100 * e18" "100 * e18 \<le> (1020999999991830400000 :: nat)"
    and a2: "0 < 400 * e18" "400 * e18 \<le> (1020999999991830400000 :: nat)"
    by simp_all
  have w1: "withdraw 31537000 1 (100 * e18) True st_borrowed = Inr st_year_withdrawn"
    by (simp add: st_borrowed_def st_year_withdrawn_def eval_defs)
  have w2: "withdraw 31537000 1 (400 * e18) True st_borrowed = Inl CollateralDisabled"
    using withdraw_collateral_gate
      [OF a u c s b p a2 n2 QieLend_reachable_st_supplied, of True 1] m2
    by simp
  have q: "borrowBalance (accounts QieLend_st_supplied 1) = 0"
    using withdraw_collateral_gate
      [OF a u c s b p a1 n1 QieLend_reachable_st_supplied, of True 1]
    by simp
  have f: "QieLend_borrow 1000 1 e18 True QieLend_st_supplied = Inl DivByZero"
    by (simp add: QieLend_st_supplied_def QieLend_eval_defs)
  show ?thesis
    using a u c s b m1 w1 m2 w2 QieLend_reachable_st_supplied f q by simp
qed

text \<open>
  Claim C7 as the specification states it fails in \<open>QieLendNative\<close>: a withdrawal that
  the collateral allows can still be refused. Accounts 1 and 2 supply 1000 tokens each
  and borrow 100 and 700. Fifteen years later both claim their rewards, which empties
  the contract's balance. Account 1 then owes \<open>189999999998776000000\<close> against a supply of
  \<open>1215999999997062400000\<close>; after a withdrawal of 100 tokens the limit
  \<open>781199999997943680000\<close> still covers the debt, and the withdrawal fails in the transfer.
\<close>

theorem allowed_withdraw_fails_in_transfer:
  "reachable st_drained
   \<and> lastUpdateTime st_drained = 473041000
   \<and> lastRewardUpdate (accounts st_drained 1) = 473041000
   \<and> collateralEnabled (accounts st_drained 1)
   \<and> getSupplyBalance st_drained 1 = Inr 1215999999997062400000
   \<and> getBorrowBalance st_drained 1 = Inr 189999999998776000000
   \<and> (1215999999997062400000 - 100 * e18) * COLLATERAL_FACTOR div 10000
       = 781199999997943680000
   \<and> withdraw 473041000 1 (100 * e18) True st_drained
       = Inl (Require ''Native transfer failed'')"
proof -
  have "reachable st_drained"
    using run_history_drained by (rule run_reachable)
  moreover have "lastUpdateTime st_drained = 473041000"
    and "lastRewardUpdate (accounts st_drained 1) = 473041000"
    and "collateralEnabled (accounts st_drained 1)"
    by (simp_all add: st_drained_def)
  moreover have "getSupplyBalance st_drained 1 = Inr 1215999999997062400000"
    by (simp add: st_drained_def eval_defs)
  moreover have "getBorrowBalance st_drained 1 = Inr 189999999998776000000"
    by (simp add: st_drained_def eval_defs)
  moreover have "(1215999999997062400000 - 100 * e18) * COLLATERAL_FACTOR div 10000
       = 781199999997943680000"
    by (simp add: COLLATERAL_FACTOR_def)
  moreover have "withdraw 473041000 1 (100 * e18) True st_drained
       = Inl (Require ''Native transfer failed'')"
    by (simp add: st_drained_def eval_defs)
  ultimately show ?thesis by simp
qed

end
